theory Spec2Isabelle
  imports Complex_Main "HOL-Library.Multiset"
begin

section \<open>Reconciliation of credit-card expenses with bank repayments\<close>

text \<open>
  A shallow embedding of \<^verbatim>\<open>scripts/account_pairing_lab.py\<close> (bank account discovery,
  cycle discrepancy classification, bank-group allocation) and of
  \<^verbatim>\<open>scripts/match_cc_transactions.py\<close> (transaction-level matching).

  Conventions of the embedding:
  \<^item> Text is a \<open>string\<close> holding the UTF-8 bytes of the Python or SQLite text. Substring
    tests and comparisons on UTF-8 bytes agree with those on code points.
  \<^item> Amounts are Python floats in the source; here they are exact rationals, so the
    rounding error of binary floating point is outside the model. \<open>round(x, 2)\<close> is
    kept, as rounding of the exact value to two decimals, ties to even.
  \<^item> The SQLite connection is a record of tables (lists of rows); a query is a filter,
    a sort and a \<open>take\<close> over them. A column that the code guards against NULL is an
    \<open>option\<close>.
  \<^item> The wall clock (\<open>today\<close>) is an argument.
\<close>

subsection \<open>Text evidence\<close>

definition lower_char :: "char \<Rightarrow> char" where
  "lower_char c = (let n = (of_char c :: nat) in if 65 \<le> n \<and> n \<le> 90 then char_of (n + 32) else c)"

text \<open>\<open>str.lower()\<close> and SQLite's \<open>lower()\<close>, on the ASCII letters. The keyword tables of
  the source hold ASCII and Hebrew text only, and Hebrew has no case.\<close>

definition lower :: "string \<Rightarrow> string" where
  "lower s = map lower_char s"

fun starts_with :: "string \<Rightarrow> string \<Rightarrow> bool" where
  "starts_with s [] = True"
| "starts_with [] (p # ps) = False"
| "starts_with (c # cs) (p # ps) = (c = p \<and> starts_with cs ps)"

text \<open>\<open>contains s p\<close> is Python's \<open>p in s\<close>.\<close>

fun contains :: "string \<Rightarrow> string \<Rightarrow> bool" where
  "contains [] p = (p = [])"
| "contains (c # cs) p = (starts_with (c # cs) p \<or> contains cs p)"

text \<open>Comparison of texts by code unit, as Python's \<open><\<close> on \<open>str\<close> and SQLite's
  BINARY collation do.\<close>

fun str_less :: "string \<Rightarrow> string \<Rightarrow> bool" where
  "str_less [] [] = False"
| "str_less [] (y # ys) = True"
| "str_less (x # xs) [] = False"
| "str_less (x # xs) (y # ys) =
     ((of_char x :: nat) < of_char y \<or> (x = y \<and> str_less xs ys))"

definition str_le :: "string \<Rightarrow> string \<Rightarrow> bool" where
  "str_le a b = (\<not> str_less b a)"

definition is_space :: "char \<Rightarrow> bool" where
  "is_space c = (let n = (of_char c :: nat) in (9 \<le> n \<and> n \<le> 13) \<or> (28 \<le> n \<and> n \<le> 32))"

definition strip :: "string \<Rightarrow> string" where
  "strip s = rev (dropWhile is_space (rev (dropWhile is_space s)))"

definition is_digit :: "char \<Rightarrow> bool" where
  "is_digit c = (let n = (of_char c :: nat) in 48 \<le> n \<and> n \<le> 57)"

text \<open>The last \<open>n\<close> characters: Python's \<open>s[-n:]\<close> for \<open>n > 0\<close>.\<close>

definition last_n :: "nat \<Rightarrow> string \<Rightarrow> string" where
  "last_n n s = drop (length s - n) s"

text \<open>A Python value used as a condition: \<open>None\<close> and the empty text are false.\<close>

fun truthy :: "string option \<Rightarrow> bool" where
  "truthy None = False"
| "truthy (Some s) = (s \<noteq> [])"

definition get_account_last4 :: "string option \<Rightarrow> string option" where
  "get_account_last4 account_number =
     (case account_number of
        None \<Rightarrow> None
      | Some a \<Rightarrow>
          if a = [] then None
          else let trimmed = strip a in
            if trimmed = [] then None
            else Some (if length trimmed > 4 then last_n 4 trimmed else trimmed))"

text \<open>The maximal runs of ASCII digits of a text, in order: the matches of
  \<open>re.findall(r"\d+", text)\<close>.\<close>

fun digit_runs :: "string \<Rightarrow> string \<Rightarrow> string list" where
  "digit_runs cur [] = (if cur = [] then [] else [cur])"
| "digit_runs cur (c # cs) =
     (if is_digit c then digit_runs (cur @ [c]) cs
      else (if cur = [] then [] else [cur]) @ digit_runs [] cs)"

fun insort_str :: "string \<Rightarrow> string list \<Rightarrow> string list" where
  "insort_str x [] = [x]"
| "insort_str x (y # ys) = (if str_less y x then y # insort_str x ys else x # y # ys)"

definition sorted_strs :: "string list \<Rightarrow> string list" where
  "sorted_strs xs = foldr insort_str xs []"

definition extract_digit_sequences :: "string option \<Rightarrow> string list" where
  "extract_digit_sequences text =
     (case text of
        None \<Rightarrow> []
      | Some s \<Rightarrow>
          if s = [] then []
          else let matches = filter (\<lambda>m. length m \<ge> 4) (digit_runs [] s) in
            sorted_strs (remdups (concat (map (\<lambda>m. if length m > 4 then [m, last_n 4 m] else [m]) matches))))"

text \<open>\<open>VENDOR_KEYWORDS\<close>, in the order of the dict; the Hebrew keywords are their UTF-8
  bytes.\<close>

definition VENDOR_KEYWORDS :: "(string \<times> string list) list" where
  "VENDOR_KEYWORDS =
    [(''max'', [[CHR 0xD7, CHR 0x9E, CHR 0xD7, CHR 0xA7, CHR 0xD7, CHR 0xA1], ''max'']),
     (''visaCal'', [[CHR 0xD7, CHR 0x9B, CHR 0x2E, CHR 0xD7, CHR 0x90, CHR 0x2E, CHR 0xD7, CHR 0x9C],
        ''cal'',
        [CHR 0xD7, CHR 0x95, CHR 0xD7, CHR 0x99, CHR 0xD7, CHR 0x96, CHR 0xD7, CHR 0x94, CHR 0x20,
         CHR 0xD7, CHR 0x9B, CHR 0xD7, CHR 0x90, CHR 0xD7, CHR 0x9C],
        ''visa cal'']),
     (''isracard'', [[CHR 0xD7, CHR 0x99, CHR 0xD7, CHR 0xA9, CHR 0xD7, CHR 0xA8, CHR 0xD7, CHR 0x90,
         CHR 0xD7, CHR 0x9B, CHR 0xD7, CHR 0xA8, CHR 0xD7, CHR 0x98],
        ''isracard'']),
     (''amex'', [[CHR 0xD7, CHR 0x90, CHR 0xD7, CHR 0x9E, CHR 0xD7, CHR 0xA7, CHR 0xD7, CHR 0xA1],
        [CHR 0xD7, CHR 0x90, CHR 0xD7, CHR 0x9E, CHR 0xD7, CHR 0xA8, CHR 0xD7, CHR 0x99, CHR 0xD7,
         CHR 0xA7, CHR 0xD7, CHR 0x9F, CHR 0x20, CHR 0xD7, CHR 0x90, CHR 0xD7, CHR 0xA7, CHR 0xD7,
         CHR 0xA1, CHR 0xD7, CHR 0xA4, CHR 0xD7, CHR 0xA8, CHR 0xD7, CHR 0xA1],
        ''amex'', ''american express'']),
     (''leumi'', [[CHR 0xD7, CHR 0x9C, CHR 0xD7, CHR 0x90, CHR 0xD7, CHR 0x95, CHR 0xD7, CHR 0x9E,
         CHR 0xD7, CHR 0x99, CHR 0x20, CHR 0xD7, CHR 0x9B, CHR 0xD7, CHR 0xA8, CHR 0xD7, CHR 0x98],
        ''leumi card'']),
     (''diners'', [[CHR 0xD7, CHR 0x93, CHR 0xD7, CHR 0x99, CHR 0xD7, CHR 0x99, CHR 0xD7, CHR 0xA0,
         CHR 0xD7, CHR 0xA8, CHR 0xD7, CHR 0xA1],
        ''diners''])]"

text \<open>\<open>VENDOR_KEYWORDS.get(cc_vendor, [])\<close>.\<close>

definition keywords_of :: "string \<Rightarrow> string list" where
  "keywords_of cc_vendor = (case map_of VENDOR_KEYWORDS cc_vendor of None \<Rightarrow> [] | Some kws \<Rightarrow> kws)"

definition name_contains_vendor :: "string option \<Rightarrow> string option \<Rightarrow> bool" where
  "name_contains_vendor name cc_vendor =
     (case (name, cc_vendor) of
        (Some n, Some v) \<Rightarrow>
          if n = [] \<or> v = [] then False
          else list_ex (\<lambda>kw. contains (lower n) (lower kw)) (keywords_of v)
      | _ \<Rightarrow> False)"

text \<open>The loop of \<open>build_match_patterns\<close> that drops empty and repeated patterns.\<close>

fun unique_patterns :: "string list \<Rightarrow> string list \<Rightarrow> string list" where
  "unique_patterns seen [] = []"
| "unique_patterns seen (p # ps) =
     (if p = [] then unique_patterns seen ps
      else if p \<in> set seen then unique_patterns seen ps
      else p # unique_patterns (p # seen) ps)"

definition build_match_patterns :: "string \<Rightarrow> string option \<Rightarrow> string list" where
  "build_match_patterns cc_vendor cc_account_number =
     (let patterns = keywords_of cc_vendor @
            (case cc_account_number of
               None \<Rightarrow> []
             | Some a \<Rightarrow>
                 if a = [] then []
                 else a # (case get_account_last4 (Some a) of
                             None \<Rightarrow> []
                           | Some last4 \<Rightarrow> if last4 \<noteq> [] \<and> last4 \<noteq> a then [last4] else []))
      in unique_patterns [] patterns)"

subsection \<open>Amounts\<close>

definition round_half_even :: "rat \<Rightarrow> int" where
  "round_half_even x =
     (let f = \<lfloor>x\<rfloor>; r = x - of_int f in
      if r < 1 / 2 then f else if r > 1 / 2 then f + 1 else if even f then f else f + 1)"

text \<open>\<open>round(x, 2)\<close>.\<close>

definition round2 :: "rat \<Rightarrow> rat" where
  "round2 x = of_int (round_half_even (x * 100)) / 100"

subsection \<open>Calendar dates\<close>

text \<open>A \<open>datetime.date\<close>: year, month, day.\<close>

type_synonym cdate = "int \<times> int \<times> int"

definition is_leap :: "int \<Rightarrow> bool" where
  "is_leap y = (y mod 4 = 0 \<and> (y mod 100 \<noteq> 0 \<or> y mod 400 = 0))"

text \<open>\<open>calendar.monthrange(year, month)[1]\<close>.\<close>

definition days_in_month :: "int \<Rightarrow> int \<Rightarrow> int" where
  "days_in_month y m =
     (if m = 2 then (if is_leap y then 29 else 28)
      else if m = 4 \<or> m = 6 \<or> m = 9 \<or> m = 11 then 30 else 31)"

definition days_before_year :: "int \<Rightarrow> int" where
  "days_before_year y = (let p = y - 1 in p * 365 + p div 4 - p div 100 + p div 400)"

definition days_before_month :: "int \<Rightarrow> int \<Rightarrow> int" where
  "days_before_month y m = sum_list (map (days_in_month y) [1..m - 1])"

text \<open>\<open>date.toordinal()\<close>; the difference of two ordinals is \<open>(a - b).days\<close>.\<close>

definition toordinal :: "cdate \<Rightarrow> int" where
  "toordinal dte = (case dte of (y, m, d) \<Rightarrow> days_before_year y + days_before_month y m + d)"

definition valid_date :: "cdate \<Rightarrow> bool" where
  "valid_date dte = (case dte of (y, m, d) \<Rightarrow>
     1 \<le> y \<and> y \<le> 9999 \<and> 1 \<le> m \<and> m \<le> 12 \<and> 1 \<le> d \<and> d \<le> days_in_month y m)"

definition digit_val :: "char \<Rightarrow> int" where
  "digit_val c = int (of_char c) - 48"

definition digits_val :: "string \<Rightarrow> int" where
  "digits_val s = foldl (\<lambda>acc c. acc * 10 + digit_val c) 0 s"

text \<open>\<open>date.fromisoformat\<close> on the plain form \<open>YYYY-MM-DD\<close>; \<open>None\<close> is its ValueError.\<close>

definition fromisoformat :: "string \<Rightarrow> cdate option" where
  "fromisoformat s =
     (if length s = 10 \<and> s ! 4 = CHR ''-'' \<and> s ! 7 = CHR ''-''
         \<and> list_all is_digit (take 4 s) \<and> list_all is_digit (take 2 (drop 5 s))
         \<and> list_all is_digit (drop 8 s)
      then let dte = (digits_val (take 4 s), digits_val (take 2 (drop 5 s)), digits_val (drop 8 s))
           in if valid_date dte then Some dte else None
      else None)"

definition digit_char :: "int \<Rightarrow> char" where
  "digit_char n = char_of (nat (48 + n mod 10))"

definition pad4 :: "int \<Rightarrow> string" where
  "pad4 n = [digit_char (n div 1000), digit_char (n div 100), digit_char (n div 10), digit_char n]"

definition pad2 :: "int \<Rightarrow> string" where
  "pad2 n = [digit_char (n div 10), digit_char n]"

text \<open>\<open>date.isoformat()\<close> and \<open>strftime('%Y-%m-%d')\<close>.\<close>

definition isoformat :: "cdate \<Rightarrow> string" where
  "isoformat dte = (case dte of (y, m, d) \<Rightarrow> pad4 y @ ''-'' @ pad2 m @ ''-'' @ pad2 d)"

datatype error = DateOutOfRange | MixedBankGroup | VendorRequired | BadTimestamp

text \<open>\<open>subtract_calendar_months\<close>; \<open>dt.date(year, month, day)\<close> raises ValueError for a
  year before 1.\<close>

definition subtract_calendar_months :: "cdate \<Rightarrow> int \<Rightarrow> error + cdate" where
  "subtract_calendar_months anchor months =
     (case anchor of (ay, am, ad) \<Rightarrow>
        if months \<le> 0 then Inr anchor
        else let month0 = (ay * 12 + (am - 1)) - months;
                 year = month0 div 12;
                 month = (month0 mod 12) + 1;
                 day = min ad (days_in_month year month)
             in if year < 1 then Inl DateOutOfRange else Inr (year, month, day))"

subsection \<open>Stable sorting\<close>

text \<open>Insertion sort; \<open>precedes y x\<close> says that \<open>y\<close> has to come strictly before \<open>x\<close>.
  Elements that neither relation orders keep their order, as in Python's \<open>sort\<close> (also with
  \<open>reverse=True\<close>). For \<open>ORDER BY\<close> SQL leaves the order of ties open; the model takes
  the same stable order.\<close>

fun insert_by :: "('a \<Rightarrow> 'a \<Rightarrow> bool) \<Rightarrow> 'a \<Rightarrow> 'a list \<Rightarrow> 'a list" where
  "insert_by precedes x [] = [x]"
| "insert_by precedes x (y # ys) = (if precedes y x then y # insert_by precedes x ys else x # y # ys)"

definition sort_by :: "('a \<Rightarrow> 'a \<Rightarrow> bool) \<Rightarrow> 'a list \<Rightarrow> 'a list" where
  "sort_by precedes xs = foldr (insert_by precedes) xs []"

subsection \<open>The ledger\<close>

record txn =
  t_identifier :: string
  t_vendor :: string
  t_account_number :: "string option"
  t_date :: string
  t_processed_date :: "string option"
  t_name :: "string option"
  t_price :: rat
  t_status :: string
  t_category_definition_id :: "int option"

record category_definition =
  cd_id :: int
  cd_name :: "string option"
  cd_name_en :: "string option"
  cd_name_fr :: "string option"

text \<open>A row of the table \<open>account_pairings\<close>. \<open>row_match_patterns\<close> holds the patterns
  that the matcher gets to test: the texts that \<open>json.loads\<close> makes of the column, none
  when it raises.\<close>

record pairing_row =
  row_id :: int
  row_credit_card_vendor :: string
  row_credit_card_account_number :: "string option"
  row_bank_vendor :: string
  row_bank_account_number :: "string option"
  row_match_patterns :: "string list"
  row_is_active :: bool
  row_discrepancy_acknowledged :: bool

text \<open>A row of the table \<open>credit_card_expense_matches\<close>, as far as the queries read it.\<close>

record expense_match_row =
  row_expense_txn_id :: string
  row_expense_vendor :: string

record db =
  transactions :: "txn list"
  category_definitions :: "category_definition list"
  account_pairings :: "pairing_row list"
  has_ack_column :: bool
  credit_card_expense_matches :: "expense_match_row list"

text \<open>The dataclass \<open>AccountPairing\<close>.\<close>

record account_pairing =
  p_id :: int
  credit_card_vendor :: string
  credit_card_account_number :: "string option"
  bank_vendor :: string
  bank_account_number :: "string option"
  match_patterns :: "string list"
  is_active :: bool
  discrepancy_acknowledged :: bool

text \<open>The Hebrew name of the repayment category.\<close>

definition REPAYMENT_NAME_HE :: string where
  "REPAYMENT_NAME_HE =
     [CHR 0xD7, CHR 0xA4, CHR 0xD7, CHR 0xA8, CHR 0xD7, CHR 0xA2, CHR 0xD7, CHR 0x95, CHR 0xD7,
      CHR 0x9F, CHR 0x20, CHR 0xD7, CHR 0x9B, CHR 0xD7, CHR 0xA8, CHR 0xD7, CHR 0x98, CHR 0xD7,
      CHR 0x99, CHR 0xD7, CHR 0xA1, CHR 0x20, CHR 0xD7, CHR 0x90, CHR 0xD7, CHR 0xA9, CHR 0xD7,
      CHR 0xA8, CHR 0xD7, CHR 0x90, CHR 0xD7, CHR 0x99]"

definition REPAYMENT_NAMES :: "string list" where
  "REPAYMENT_NAMES =
     [REPAYMENT_NAME_HE,
      [CHR 0xD7, CHR 0x94, CHR 0xD7, CHR 0x97, CHR 0xD7, CHR 0x96, CHR 0xD7, CHR 0xA8, CHR 0x20,
       CHR 0xD7, CHR 0x9B, CHR 0xD7, CHR 0xA8, CHR 0xD7, CHR 0x98, CHR 0xD7, CHR 0x99, CHR 0xD7,
       CHR 0xA1, CHR 0x20, CHR 0xD7, CHR 0x90, CHR 0xD7, CHR 0xA9, CHR 0xD7, CHR 0xA8, CHR 0xD7,
       CHR 0x90, CHR 0xD7, CHR 0x99]]"

definition REPAYMENT_NAMES_EN :: "string list" where
  "REPAYMENT_NAMES_EN = [''Credit Card Repayment'', ''Card repayment'', ''Credit card repayment'']"

definition REPAYMENT_NAMES_FR :: "string list" where
  "REPAYMENT_NAMES_FR =
     [''Remboursement de carte de cr'' @ [CHR 0xC3, CHR 0xA9] @ ''dit'']"

text \<open>\<open>LEFT JOIN category_definitions cd ON cd.id = t.category_definition_id\<close>; \<open>id\<close> is
  the primary key of the table, so the join finds at most one row.\<close>

definition category_of :: "db \<Rightarrow> txn \<Rightarrow> category_definition option" where
  "category_of conn t =
     (case t_category_definition_id t of
        None \<Rightarrow> None
      | Some c \<Rightarrow> find (\<lambda>cd. cd_id cd = c) (category_definitions conn))"

definition opt_in :: "string option \<Rightarrow> string list \<Rightarrow> bool" where
  "opt_in v xs = (case v of None \<Rightarrow> False | Some s \<Rightarrow> s \<in> set xs)"

text \<open>The predicate of \<open>build_category_predicates\<close>, applied to the joined row.\<close>

definition is_repayment_category :: "db \<Rightarrow> txn \<Rightarrow> bool" where
  "is_repayment_category conn t =
     (case category_of conn t of
        None \<Rightarrow> False
      | Some cd \<Rightarrow> opt_in (cd_name cd) REPAYMENT_NAMES \<or> opt_in (cd_name_en cd) REPAYMENT_NAMES_EN
                   \<or> opt_in (cd_name_fr cd) REPAYMENT_NAMES_FR)"

definition FEES_NAME_HE :: string where
  "FEES_NAME_HE =
     [CHR 0xD7, CHR 0xA2, CHR 0xD7, CHR 0x9E, CHR 0xD7, CHR 0x9C, CHR 0xD7, CHR 0x95, CHR 0xD7,
      CHR 0xAA, CHR 0x20, CHR 0xD7, CHR 0x91, CHR 0xD7, CHR 0xA0, CHR 0xD7, CHR 0xA7, CHR 0x20,
      CHR 0xD7, CHR 0x95, CHR 0xD7, CHR 0x9B, CHR 0xD7, CHR 0xA8, CHR 0xD7, CHR 0x98, CHR 0xD7,
      CHR 0x99, CHR 0xD7, CHR 0xA1]"

definition get_cc_fees_category_id :: "db \<Rightarrow> int option" where
  "get_cc_fees_category_id conn =
     (case find (\<lambda>cd. cd_name_en cd = Some ''Bank & Card Fees'' \<or> cd_name cd = Some FEES_NAME_HE)
             (category_definitions conn) of
        None \<Rightarrow> None
      | Some cd \<Rightarrow> Some (cd_id cd))"

text \<open>\<open>cc_fees_category_id if cc_fees_category_id is not None else -1\<close>.\<close>

definition cc_fees_category_id_value :: "db \<Rightarrow> int" where
  "cc_fees_category_id_value conn = (case get_cc_fees_category_id conn of None \<Rightarrow> - 1 | Some f \<Rightarrow> f)"

text \<open>\<open>substr(COALESCE(t.processed_date, t.date), 1, 10)\<close>.\<close>

definition billing_day :: "txn \<Rightarrow> string" where
  "billing_day t = take 10 (case t_processed_date t of None \<Rightarrow> t_date t | Some p \<Rightarrow> p)"

definition min_str :: "string list \<Rightarrow> string option" where
  "min_str xs = (case xs of [] \<Rightarrow> None | x # rest \<Rightarrow> Some (foldl (\<lambda>m s. if str_less s m then s else m) x rest))"

definition get_cc_earliest_cycle_date :: "db \<Rightarrow> string \<Rightarrow> string option \<Rightarrow> int option \<Rightarrow> cdate option" where
  "get_cc_earliest_cycle_date conn cc_vendor cc_account_number cc_fees_category_id =
     (let rows = filter (\<lambda>t. t_vendor t = cc_vendor \<and> t_status t = ''completed'' \<and> t_price t < 0
                     \<and> (truthy cc_account_number \<longrightarrow> t_account_number t = cc_account_number)
                     \<and> (case cc_fees_category_id of
                           None \<Rightarrow> True
                         | Some f \<Rightarrow> t_category_definition_id t \<noteq> Some f))
                   (transactions conn)
      in case min_str (map billing_day rows) of
           None \<Rightarrow> None
         | Some min_date \<Rightarrow> if min_date = [] then None else fromisoformat min_date)"

subsection \<open>Cycle discrepancy classifier\<close>

definition EPSILON :: rat where "EPSILON = 1"
definition MAX_FEE_AMOUNT :: rat where "MAX_FEE_AMOUNT = 200"
definition EARLY_GRACE_DAYS :: int where "EARLY_GRACE_DAYS = 14"
definition RECENT_GRACE_DAYS :: int where "RECENT_GRACE_DAYS = 14"

text \<open>The status texts of a cycle.\<close>

datatype cycle_status =
  matched | fee_candidate | large_discrepancy | cc_over_bank | missing_cc_cycle | incomplete_history

text \<open>Membership in \<open>actionable_statuses\<close>.\<close>

fun actionable :: "cycle_status \<Rightarrow> bool" where
  "actionable fee_candidate = True"
| "actionable large_discrepancy = True"
| "actionable cc_over_bank = True"
| "actionable missing_cc_cycle = True"
| "actionable matched = False"
| "actionable incomplete_history = False"

text \<open>The dict built for each repayment row.\<close>

record repayment =
  rp_identifier :: string
  rp_vendor :: string
  rp_accountNumber :: "string option"
  rp_date :: string
  rp_cycleDate :: string
  rp_name :: string
  rp_price :: rat

record bucket =
  bucket_repaymentDate :: string
  bucket_repayments :: "repayment list"
  bucket_bankTotal :: rat

record cycle =
  cycleDate :: string
  bankTotal :: rat
  ccTotal :: "rat option"
  difference :: "rat option"
  repayments :: "repayment list"
  status :: cycle_status
  matchedAccount :: "string option"

text \<open>A row of the per-date card query: one group of \<open>GROUP BY t.account_number\<close>.\<close>

record cc_row =
  r_account_number :: "string option"
  r_total :: rat
  r_txn_count :: nat

text \<open>\<open>str(row["name"] or "")\<close>.\<close>

definition name_or_empty :: "string option \<Rightarrow> string" where
  "name_or_empty n = (case n of None \<Rightarrow> [] | Some s \<Rightarrow> s)"

definition to_repayment :: "txn \<Rightarrow> repayment" where
  "to_repayment row =
     \<lparr>rp_identifier = t_identifier row, rp_vendor = t_vendor row,
      rp_accountNumber = t_account_number row, rp_date = t_date row,
      rp_cycleDate = take 10 (t_date row), rp_name = name_or_empty (t_name row),
      rp_price = t_price row\<rparr>"

text \<open>The repayment query shared by the classifier and the allocator. A negative
  \<open>LIMIT\<close> means no limit in SQLite; the limit of the model is a natural number.\<close>

definition select_repayment_rows ::
  "db \<Rightarrow> string \<Rightarrow> string option \<Rightarrow> string \<Rightarrow> string \<Rightarrow> nat \<Rightarrow> txn list" where
  "select_repayment_rows conn bank_vendor' bank_account_number' start_date_str today_str limit =
     take limit
       (sort_by (\<lambda>y x. str_less (t_date x) (t_date y))
          (filter (\<lambda>t. t_vendor t = bank_vendor'
                      \<and> str_le start_date_str (take 10 (t_date t))
                      \<and> str_le (take 10 (t_date t)) today_str
                      \<and> t_status t = ''completed''
                      \<and> t_price t < 0
                      \<and> is_repayment_category conn t
                      \<and> (truthy bank_account_number' \<longrightarrow> t_account_number t = bank_account_number'))
             (transactions conn)))"

text \<open>The inner function \<open>repayment_matches_cc\<close>.\<close>

definition repayment_matches_cc :: "string option \<Rightarrow> string list \<Rightarrow> string \<Rightarrow> bool" where
  "repayment_matches_cc cc_last4 cc_keywords name =
     (if name = [] then False
      else if (case cc_last4 of None \<Rightarrow> False | Some l \<Rightarrow> l \<noteq> [] \<and> contains name l) then True
      else list_ex (\<lambda>kw. contains (lower name) (lower kw)) cc_keywords)"

text \<open>\<open>repayments_by_date.setdefault(date_key, ...)\<close> followed by the update of the bucket;
  a dict keeps its keys in the order of their first insertion.\<close>

fun add_to_bucket :: "txn \<Rightarrow> (string \<times> bucket) list \<Rightarrow> (string \<times> bucket) list" where
  "add_to_bucket row [] =
     [(take 10 (t_date row),
       \<lparr>bucket_repaymentDate = take 10 (t_date row), bucket_repayments = [to_repayment row],
        bucket_bankTotal = 0 + \<bar>t_price row\<bar>\<rparr>)]"
| "add_to_bucket row ((k, b) # kvs) =
     (if k = take 10 (t_date row)
      then (k, b\<lparr>bucket_repayments := bucket_repayments b @ [to_repayment row],
                 bucket_bankTotal := bucket_bankTotal b + \<bar>t_price row\<bar>\<rparr>) # kvs
      else (k, b) # add_to_bucket row kvs)"

definition bucket_repayments_by_date :: "txn list \<Rightarrow> (string \<times> bucket) list" where
  "bucket_repayments_by_date rows = foldl (\<lambda>acc row. add_to_bucket row acc) [] rows"

definition FEE_CARD_HE :: string where
  "FEE_CARD_HE =
     [CHR 0xD7, CHR 0x93, CHR 0xD7, CHR 0x9E, CHR 0xD7, CHR 0x99, CHR 0x20, CHR 0xD7, CHR 0x9B,
      CHR 0xD7, CHR 0xA8, CHR 0xD7, CHR 0x98, CHR 0xD7, CHR 0x99, CHR 0xD7, CHR 0xA1]"

definition WAIVER_HE :: string where
  "WAIVER_HE = [CHR 0xD7, CHR 0xA4, CHR 0xD7, CHR 0x98, CHR 0xD7, CHR 0x95, CHR 0xD7, CHR 0xA8]"

definition DISCOUNT_HE :: string where
  "DISCOUNT_HE = [CHR 0xD7, CHR 0x94, CHR 0xD7, CHR 0xA0, CHR 0xD7, CHR 0x97, CHR 0xD7, CHR 0x94]"

text \<open>\<open>lower(COALESCE(t.name, '')) LIKE '%p%'\<close> for a pattern \<open>p\<close> without wildcards;
  \<open>LIKE\<close> ignores the case of ASCII letters.\<close>

definition sql_like_contains :: "string option \<Rightarrow> string \<Rightarrow> bool" where
  "sql_like_contains n p = contains (lower (lower (name_or_empty n))) (lower p)"

text \<open>The \<open>CASE\<close> expression summed by the card queries: a waived card fee counts with its
  own (negative) sign, everything else negated.\<close>

definition cc_contribution :: "int \<Rightarrow> txn \<Rightarrow> rat" where
  "cc_contribution fees_id t =
     (if t_category_definition_id t = Some fees_id \<and> t_price t < 0
         \<and> sql_like_contains (t_name t) FEE_CARD_HE
         \<and> (sql_like_contains (t_name t) WAIVER_HE \<or> sql_like_contains (t_name t) DISCOUNT_HE)
      then t_price t else - t_price t)"

fun opt_str_less :: "string option \<Rightarrow> string option \<Rightarrow> bool" where
  "opt_str_less None None = False"
| "opt_str_less None (Some b) = True"
| "opt_str_less (Some a) None = False"
| "opt_str_less (Some a) (Some b) = str_less a b"

text \<open>The distinct values of a column, ascending with NULL first: the order in which
  SQLite's sorter emits the groups of a \<open>GROUP BY\<close>.\<close>

definition group_keys :: "string option list \<Rightarrow> string option list" where
  "group_keys ks = sort_by (\<lambda>y x. opt_str_less y x) (remdups ks)"

definition select_cc_rows :: "db \<Rightarrow> int \<Rightarrow> string \<Rightarrow> string \<Rightarrow> string option \<Rightarrow> cc_row list" where
  "select_cc_rows conn fees_id cc_vendor date_key cc_account_number =
     (let rows = filter (\<lambda>t. t_vendor t = cc_vendor \<and> t_status t = ''completed''
                           \<and> billing_day t = date_key
                           \<and> (truthy cc_account_number \<longrightarrow> t_account_number t = cc_account_number))
                   (transactions conn)
      in map (\<lambda>k. let grp = filter (\<lambda>t. t_account_number t = k) rows in
                  \<lparr>r_account_number = k, r_total = sum_list (map (cc_contribution fees_id) grp),
                   r_txn_count = length grp\<rparr>)
           (group_keys (map t_account_number rows)))"

text \<open>The first loop over the card rows: the first row within \<open>EPSILON\<close> ends the loop as
  \<open>matched\<close>; a row within the fee range is kept as \<open>fee_candidate\<close> and the loop goes on.
  The accumulator is \<open>(cc_total, matched_account, status)\<close>.\<close>

fun scan_cc_rows ::
  "rat \<Rightarrow> cc_row list \<Rightarrow> rat option \<times> string option \<times> cycle_status \<Rightarrow>
   rat option \<times> string option \<times> cycle_status" where
  "scan_cc_rows bank [] acc = acc"
| "scan_cc_rows bank (cc_row # rest) acc =
     (let row_total = max 0 (r_total cc_row); diff_abs = \<bar>bank - row_total\<bar> in
      if diff_abs \<le> EPSILON then (Some row_total, r_account_number cc_row, matched)
      else if diff_abs \<le> MAX_FEE_AMOUNT \<and> diff_abs > EPSILON \<and> bank > row_total
      then scan_cc_rows bank rest (Some row_total, r_account_number cc_row, fee_candidate)
      else scan_cc_rows bank rest acc)"

text \<open>The status rule for a known difference.\<close>

definition status_of_diff :: "rat \<Rightarrow> cycle_status" where
  "status_of_diff diff =
     (if \<bar>diff\<bar> \<le> EPSILON then matched
      else if diff > 0 \<and> diff \<le> MAX_FEE_AMOUNT then fee_candidate
      else if diff > MAX_FEE_AMOUNT then large_discrepancy
      else cc_over_bank)"

text \<open>The body of the loop over the buckets, from the card rows to
  \<open>(cc_total, matched_account, status)\<close>.\<close>

definition classify_cycle ::
  "rat \<Rightarrow> cc_row list \<Rightarrow> string option \<Rightarrow> rat option \<times> string option \<times> cycle_status" where
  "classify_cycle bank cc_rows cc_account_number =
     (if cc_rows = [] then (None, None, missing_cc_cycle)
      else case scan_cc_rows bank cc_rows (None, None, missing_cc_cycle) of
        (cc_total, matched_account, st) \<Rightarrow>
          if st = missing_cc_cycle \<and> truthy cc_account_number
          then (case find (\<lambda>r. Some (name_or_empty (r_account_number r)) = cc_account_number) cc_rows of
                  None \<Rightarrow> (cc_total, matched_account, st)
                | Some cc_row \<Rightarrow>
                    let row_total = max 0 (r_total cc_row) in
                    (Some row_total, cc_account_number, status_of_diff (bank - row_total)))
          else (cc_total, matched_account, st))"

definition make_cycle :: "db \<Rightarrow> int \<Rightarrow> string \<Rightarrow> string option \<Rightarrow> string \<times> bucket \<Rightarrow> cycle" where
  "make_cycle conn fees_id cc_vendor cc_account_number kb =
     (case kb of (date_key, b) \<Rightarrow>
        case classify_cycle (bucket_bankTotal b)
               (select_cc_rows conn fees_id cc_vendor date_key cc_account_number) cc_account_number of
          (cc_total, matched_account, st) \<Rightarrow>
            \<lparr>cycleDate = date_key,
             bankTotal = round2 (bucket_bankTotal b),
             ccTotal = map_option round2 cc_total,
             difference = map_option (\<lambda>c. round2 (bucket_bankTotal b - c)) cc_total,
             repayments = bucket_repayments b,
             status = st,
             matchedAccount = matched_account\<rparr>)"

text \<open>The grace-period pass over one cycle.\<close>

definition grace_relabel :: "cdate \<Rightarrow> cdate option \<Rightarrow> cycle \<Rightarrow> cycle" where
  "grace_relabel today earliest_cc_cycle_date c =
     (if \<not> actionable (status c) then c
      else case fromisoformat (cycleDate c) of
        None \<Rightarrow> c
      | Some cycle_date \<Rightarrow>
          if (case earliest_cc_cycle_date of
                None \<Rightarrow> False
              | Some e \<Rightarrow> toordinal cycle_date - toordinal e \<le> EARLY_GRACE_DAYS)
          then c\<lparr>status := incomplete_history\<rparr>
          else if 0 \<le> toordinal today - toordinal cycle_date
                  \<and> toordinal today - toordinal cycle_date \<le> RECENT_GRACE_DAYS
          then c\<lparr>status := incomplete_history\<rparr>
          else c)"

text \<open>The result dict with all its keys.\<close>

record discrepancy =
  d_exists :: bool
  d_acknowledged :: bool
  totalBankRepayments :: rat
  totalCCExpenses :: rat
  d_difference :: rat
  differencePercentage :: rat
  periodMonths :: int
  matchedCycleCount :: nat
  totalCycles :: nat
  cycles :: "cycle list"

text \<open>The three shapes of the result: without vendors (\<open>exists\<close> and \<open>cycles\<close> only),
  without matching repayments (with acknowledgement, reason and period), and the full one.\<close>

datatype discrepancy_result =
  NoVendor
| NoRepayments bool string int
| Discrepancy discrepancy

fun result_exists :: "discrepancy_result \<Rightarrow> bool" where
  "result_exists NoVendor = False"
| "result_exists (NoRepayments ack reason months) = False"
| "result_exists (Discrepancy d) = d_exists d"

fun result_cycles :: "discrepancy_result \<Rightarrow> cycle list" where
  "result_cycles NoVendor = []"
| "result_cycles (NoRepayments ack reason months) = []"
| "result_cycles (Discrepancy d) = cycles d"

text \<open>The aggregation at the end of the classifier and of the allocator.\<close>

definition comparable :: "cycle list \<Rightarrow> cycle list" where
  "comparable cs = filter (\<lambda>c. ccTotal c \<noteq> None \<and> status c \<noteq> incomplete_history) cs"

definition summarize :: "bool \<Rightarrow> int \<Rightarrow> cycle list \<Rightarrow> discrepancy" where
  "summarize acknowledged months_back cs =
     (let total_bank = sum_list (map bankTotal (comparable cs));
          total_cc = sum_list (map (\<lambda>c. case ccTotal c of None \<Rightarrow> 0 | Some v \<Rightarrow> v) (comparable cs));
          total_diff = total_bank - total_cc;
          has_discrepancy = list_ex (\<lambda>c. actionable (status c)) cs
      in \<lparr>d_exists = (has_discrepancy \<and> \<not> acknowledged),
          d_acknowledged = acknowledged,
          totalBankRepayments = round2 total_bank,
          totalCCExpenses = round2 total_cc,
          d_difference = round2 total_diff,
          differencePercentage = (if total_cc > 0 then round2 ((total_diff / total_cc) * 100) else 0),
          periodMonths = months_back,
          matchedCycleCount = length (filter (\<lambda>c. status c = matched) cs),
          totalCycles = length cs,
          cycles = cs\<rparr>)"

text \<open>The lookup of the acknowledgement flag: false without a pairing id, without the
  column (the OperationalError) or without the row.\<close>

definition lookup_acknowledged :: "db \<Rightarrow> int option \<Rightarrow> bool" where
  "lookup_acknowledged conn pairing_id =
     (case pairing_id of
        None \<Rightarrow> False
      | Some i \<Rightarrow>
          if \<not> has_ack_column conn then False
          else case find (\<lambda>r. row_id r = i) (account_pairings conn) of
                 None \<Rightarrow> False
               | Some r \<Rightarrow> row_discrepancy_acknowledged r)"

definition no_repayments_reason :: "string \<Rightarrow> string option \<Rightarrow> string" where
  "no_repayments_reason cc_vendor cc_last4 =
     ''No bank repayments found matching this credit card ('' @ cc_vendor @ '' ''
       @ (case cc_last4 of None \<Rightarrow> [] | Some l \<Rightarrow> l) @ '')''"

definition calculate_discrepancy_app ::
  "db \<Rightarrow> cdate \<Rightarrow> int option \<Rightarrow> string \<Rightarrow> string option \<Rightarrow> string \<Rightarrow> string option \<Rightarrow> int \<Rightarrow> nat \<Rightarrow>
   error + discrepancy_result" where
  "calculate_discrepancy_app conn today pairing_id bank_vendor' bank_account_number' cc_vendor
      cc_account_number months_back limit =
     (if bank_vendor' = [] \<or> cc_vendor = [] then Inr NoVendor
      else case subtract_calendar_months today months_back of
        Inl e \<Rightarrow> Inl e
      | Inr start_date \<Rightarrow>
          let acknowledged = lookup_acknowledged conn pairing_id;
              cc_fees_category_id = get_cc_fees_category_id conn;
              earliest_cc_cycle_date =
                get_cc_earliest_cycle_date conn cc_vendor cc_account_number cc_fees_category_id;
              repayment_rows = select_repayment_rows conn bank_vendor' bank_account_number'
                                 (isoformat start_date) (isoformat today) limit;
              cc_last4 = get_account_last4 cc_account_number;
              cc_keywords = keywords_of cc_vendor;
              matching_repayments =
                filter (\<lambda>row. repayment_matches_cc cc_last4 cc_keywords (name_or_empty (t_name row)))
                  repayment_rows
          in if matching_repayments = []
             then Inr (NoRepayments acknowledged (no_repayments_reason cc_vendor cc_last4) months_back)
             else
               let repayments_by_date = bucket_repayments_by_date matching_repayments;
                   cycles0 = map (make_cycle conn (cc_fees_category_id_value conn) cc_vendor cc_account_number)
                               repayments_by_date;
                   cycles1 = sort_by (\<lambda>y x. str_less (cycleDate x) (cycleDate y)) cycles0;
                   cycles2 = map (grace_relabel today earliest_cc_cycle_date) cycles1
               in Inr (Discrepancy (summarize acknowledged months_back cycles2)))"

subsection \<open>Bank-group allocator\<close>

text \<open>Python dicts keyed by pairing id, as association lists in insertion order:
  \<open>d[k] = v\<close> and \<open>d.get(k)\<close>.\<close>

fun dict_set :: "'k \<Rightarrow> 'v \<Rightarrow> ('k \<times> 'v) list \<Rightarrow> ('k \<times> 'v) list" where
  "dict_set k v [] = [(k, v)]"
| "dict_set k v ((k', v') # kvs) = (if k = k' then (k, v) # kvs else (k', v') # dict_set k v kvs)"

definition dict_get :: "('k \<times> 'v) list \<Rightarrow> 'k \<Rightarrow> 'v option" where
  "dict_get d k = map_of d k"

text \<open>\<open>{pairing.id: v for pairing in pairings}\<close>.\<close>

definition dict_init :: "account_pairing list \<Rightarrow> 'v \<Rightarrow> (int \<times> 'v) list" where
  "dict_init pairings v = foldl (\<lambda>d p. dict_set (p_id p) v d) [] pairings"

text \<open>The running total of a pairing. Every id that is looked up is a key of the dict,
  which was initialised from the same pairings; \<open>0\<close> stands for the KeyError that cannot
  happen.\<close>

definition total_of :: "(int \<times> rat) list \<Rightarrow> int \<Rightarrow> rat" where
  "total_of d k = (case dict_get d k of None \<Rightarrow> 0 | Some v \<Rightarrow> v)"

definition txns_of :: "(int \<times> repayment list) list \<Rightarrow> int \<Rightarrow> repayment list" where
  "txns_of d k = (case dict_get d k of None \<Rightarrow> [] | Some v \<Rightarrow> v)"

text \<open>\<open>get_cc_totals_for_date_range\<close>: the billed total of every billing day in the
  window, clamped at 0. The result is only ever looked up by day.\<close>

definition get_cc_totals_for_date_range ::
  "db \<Rightarrow> string \<Rightarrow> string option \<Rightarrow> string \<Rightarrow> string \<Rightarrow> (string \<times> rat) list" where
  "get_cc_totals_for_date_range conn cc_vendor cc_account_number start_date end_date =
     (let fees_id = cc_fees_category_id_value conn;
          rows = filter (\<lambda>t. t_vendor t = cc_vendor \<and> t_status t = ''completed''
                           \<and> str_le start_date (billing_day t) \<and> str_le (billing_day t) end_date
                           \<and> (truthy cc_account_number \<longrightarrow> t_account_number t = cc_account_number))
                   (transactions conn)
      in map (\<lambda>k. (k, max 0 (sum_list (map (cc_contribution fees_id)
                                  (filter (\<lambda>t. billing_day t = k) rows)))))
           (remdups (map billing_day rows)))"

definition repayment_name_match_strength :: "account_pairing \<Rightarrow> string \<Rightarrow> nat" where
  "repayment_name_match_strength pairing name =
     (let hints = extract_digit_sequences (Some name);
          cc_account = credit_card_account_number pairing;
          cc_last4 = get_account_last4 cc_account
      in if truthy cc_account \<and> list_ex (\<lambda>h. Some h = cc_account) hints then 2
         else if truthy cc_last4 \<and> list_ex (\<lambda>h. Some h = cc_last4) hints then 2
         else if name_contains_vendor (Some name) (Some (credit_card_vendor pairing)) then 1
         else 0)"

text \<open>\<open>cc_totals_by_pairing_id.get(pairing.id, {}).get(date_key)\<close>.\<close>

definition cc_total_for :: "(int \<times> (string \<times> rat) list) list \<Rightarrow> int \<Rightarrow> string \<Rightarrow> rat option" where
  "cc_total_for cc_totals_by_pairing_id i date_key =
     (case dict_get cc_totals_by_pairing_id i of None \<Rightarrow> None | Some totals \<Rightarrow> dict_get totals date_key)"

text \<open>The loop over the candidates: the pairing whose running total plus this amount comes
  closest to its billed total; the first one wins a tie. The accumulator is
  \<open>(best_pairing, best_new_diff)\<close>.\<close>

fun pick_best ::
  "(int \<times> (string \<times> rat) list) list \<Rightarrow> string \<Rightarrow> (int \<times> rat) list \<Rightarrow> rat \<Rightarrow> account_pairing list \<Rightarrow>
   account_pairing option \<times> rat option \<Rightarrow> account_pairing option \<times> rat option" where
  "pick_best cc_totals date_key assigned_total amount [] acc = acc"
| "pick_best cc_totals date_key assigned_total amount (candidate # rest) (best_pairing, best_new_diff) =
     (case cc_total_for cc_totals (p_id candidate) date_key of
        None \<Rightarrow> pick_best cc_totals date_key assigned_total amount rest (best_pairing, best_new_diff)
      | Some cc_total \<Rightarrow>
          let new_diff = \<bar>(total_of assigned_total (p_id candidate) + amount) - cc_total\<bar> in
          if (case best_new_diff of None \<Rightarrow> True | Some b \<Rightarrow> new_diff < b)
          then pick_best cc_totals date_key assigned_total amount rest (Some candidate, Some new_diff)
          else pick_best cc_totals date_key assigned_total amount rest (best_pairing, best_new_diff))"

text \<open>The state of the loop over the repayments of one date.\<close>

record allocation =
  assigned_total_by_id :: "(int \<times> rat) list"
  assigned_txns_by_id :: "(int \<times> repayment list) list"
  unassigned :: "repayment list"

text \<open>The decision for one repayment: the pairing that receives it, or \<open>None\<close> when it is
  left unassigned.\<close>

definition choose_pairing ::
  "account_pairing list \<Rightarrow> (int \<times> (string \<times> rat) list) list \<Rightarrow> string \<Rightarrow> (int \<times> rat) list \<Rightarrow>
   repayment \<Rightarrow> account_pairing option" where
  "choose_pairing pairings cc_totals date_key assigned_total rp =
     (let amount = \<bar>rp_price rp\<bar>;
          name = rp_name rp;
          digit_candidates = filter (\<lambda>p. repayment_name_match_strength p name = 2) pairings;
          vendor_candidates = filter (\<lambda>p. repayment_name_match_strength p name = 1) pairings;
          has_signal = (digit_candidates \<noteq> [] \<or> vendor_candidates \<noteq> []);
          candidates = (if digit_candidates \<noteq> [] then digit_candidates
                        else if vendor_candidates \<noteq> [] then vendor_candidates
                        else pairings)
      in case pick_best cc_totals date_key assigned_total amount candidates (None, None) of
           (None, best_new_diff) \<Rightarrow>
             if \<not> has_signal then None
             else (case candidates of [] \<Rightarrow> None | c # cs \<Rightarrow> Some c)
         | (Some best_pairing, best_new_diff) \<Rightarrow>
             if \<not> has_signal \<and> (case best_new_diff of None \<Rightarrow> False | Some b \<Rightarrow> b > EPSILON)
             then None
             else Some best_pairing)"

definition allocate_step ::
  "account_pairing list \<Rightarrow> (int \<times> (string \<times> rat) list) list \<Rightarrow> string \<Rightarrow> allocation \<Rightarrow> repayment \<Rightarrow>
   allocation" where
  "allocate_step pairings cc_totals date_key a rp =
     (case choose_pairing pairings cc_totals date_key (assigned_total_by_id a) rp of
        None \<Rightarrow> a\<lparr>unassigned := unassigned a @ [rp]\<rparr>
      | Some best_pairing \<Rightarrow>
          a\<lparr>assigned_total_by_id :=
               dict_set (p_id best_pairing)
                 (total_of (assigned_total_by_id a) (p_id best_pairing) + \<bar>rp_price rp\<bar>)
                 (assigned_total_by_id a),
             assigned_txns_by_id :=
               dict_set (p_id best_pairing)
                 (txns_of (assigned_txns_by_id a) (p_id best_pairing) @ [rp])
                 (assigned_txns_by_id a)\<rparr>)"

text \<open>The allocation of one date bucket: the repayments, largest amount first, are run
  through \<open>allocate_step\<close> from the empty allocation.\<close>

definition allocate_bucket ::
  "account_pairing list \<Rightarrow> (int \<times> (string \<times> rat) list) list \<Rightarrow> string \<Rightarrow> repayment list \<Rightarrow> allocation" where
  "allocate_bucket pairings cc_totals date_key rps =
     foldl (allocate_step pairings cc_totals date_key)
       \<lparr>assigned_total_by_id = dict_init pairings 0, assigned_txns_by_id = dict_init pairings [],
        unassigned = []\<rparr>
       (sort_by (\<lambda>y x. \<bar>rp_price x\<bar> < \<bar>rp_price y\<bar>) rps)"

text \<open>The grace-period rule of the allocator on a status.\<close>

definition grace_status :: "cdate \<Rightarrow> cdate option \<Rightarrow> string \<Rightarrow> cycle_status \<Rightarrow> cycle_status" where
  "grace_status today earliest date_key st =
     (if actionable st
      then (case fromisoformat date_key of
              None \<Rightarrow> st
            | Some cycle_date \<Rightarrow>
                if (case earliest of
                      None \<Rightarrow> False
                    | Some e \<Rightarrow> toordinal cycle_date - toordinal e \<le> EARLY_GRACE_DAYS)
                then incomplete_history
                else if 0 \<le> toordinal today - toordinal cycle_date
                        \<and> toordinal today - toordinal cycle_date \<le> RECENT_GRACE_DAYS
                then incomplete_history
                else st)
      else st)"

text \<open>The cycle of one pairing for one date; no cycle when nothing was assigned to it.\<close>

definition allocated_cycle ::
  "cdate \<Rightarrow> (int \<times> (string \<times> rat) list) list \<Rightarrow> (int \<times> cdate option) list \<Rightarrow> string \<Rightarrow> allocation \<Rightarrow>
   account_pairing \<Rightarrow> cycle option" where
  "allocated_cycle today cc_totals earliest_by_id date_key a pairing =
     (let bank_total = total_of (assigned_total_by_id a) (p_id pairing) in
      if bank_total \<le> 0 then None
      else
        let cc_total = cc_total_for cc_totals (p_id pairing) date_key;
            st0 = (case cc_total of None \<Rightarrow> missing_cc_cycle | Some c \<Rightarrow> status_of_diff (bank_total - c));
            earliest = (case dict_get earliest_by_id (p_id pairing) of None \<Rightarrow> None | Some e \<Rightarrow> e)
        in Some \<lparr>cycleDate = date_key,
                 bankTotal = round2 bank_total,
                 ccTotal = map_option round2 cc_total,
                 difference = map_option (\<lambda>c. round2 (bank_total - c)) cc_total,
                 repayments = txns_of (assigned_txns_by_id a) (p_id pairing),
                 status = grace_status today earliest date_key st0,
                 matchedAccount = credit_card_account_number pairing\<rparr>)"

text \<open>\<open>repayments_by_date[date_key].append(...)\<close> on a \<open>defaultdict(list)\<close>.\<close>

fun add_to_date :: "repayment \<Rightarrow> (string \<times> repayment list) list \<Rightarrow> (string \<times> repayment list) list" where
  "add_to_date rp [] = [(rp_cycleDate rp, [rp])]"
| "add_to_date rp ((k, rps) # kvs) =
     (if k = rp_cycleDate rp then (k, rps @ [rp]) # kvs else (k, rps) # add_to_date rp kvs)"

definition group_repayments_by_date :: "txn list \<Rightarrow> (string \<times> repayment list) list" where
  "group_repayments_by_date rows = foldl (\<lambda>acc row. add_to_date (to_repayment row) acc) [] rows"

text \<open>The loop over the pairings that appends the cycles of one date to
  \<open>cycles_by_pairing_id\<close>.\<close>

definition append_cycles ::
  "cdate \<Rightarrow> (int \<times> (string \<times> rat) list) list \<Rightarrow> (int \<times> cdate option) list \<Rightarrow> account_pairing list \<Rightarrow>
   (int \<times> cycle list) list \<Rightarrow> string \<times> repayment list \<Rightarrow> (int \<times> cycle list) list" where
  "append_cycles today cc_totals earliest_by_id pairings cycles_by_pairing_id kr =
     (case kr of (date_key, rps) \<Rightarrow>
        let a = allocate_bucket pairings cc_totals date_key rps in
        foldl (\<lambda>cbp pairing.
                 case allocated_cycle today cc_totals earliest_by_id date_key a pairing of
                   None \<Rightarrow> cbp
                 | Some c \<Rightarrow>
                     dict_set (p_id pairing)
                       ((case dict_get cbp (p_id pairing) of None \<Rightarrow> [] | Some cs \<Rightarrow> cs) @ [c]) cbp)
          cycles_by_pairing_id pairings)"

text \<open>The precondition of the allocator.\<close>

definition same_bank :: "account_pairing \<Rightarrow> account_pairing \<Rightarrow> bool" where
  "same_bank p q = (bank_vendor q = bank_vendor p \<and> bank_account_number q = bank_account_number p)"

text \<open>The allocator after its precondition check, for the window that starts at
  \<open>start_date\<close>. The result maps a pairing id to its discrepancy; every entry also carries
  the constant \<open>"method": "allocated"\<close>, which the model leaves out.\<close>

definition bank_group_discrepancies ::
  "db \<Rightarrow> cdate \<Rightarrow> cdate \<Rightarrow> account_pairing list \<Rightarrow> int \<Rightarrow> nat \<Rightarrow> (int \<times> discrepancy) list" where
  "bank_group_discrepancies conn today start_date pairings months_back limit =
     (let start_date_str = isoformat start_date;
          today_str = isoformat today;
          repayment_rows = (case pairings of
                              [] \<Rightarrow> []
                            | first # others \<Rightarrow>
                                select_repayment_rows conn (bank_vendor first)
                                  (bank_account_number first) start_date_str today_str limit);
          repayments_by_date = group_repayments_by_date repayment_rows;
          cc_fees_category_id = get_cc_fees_category_id conn;
          cc_totals = foldl (\<lambda>d p. dict_set (p_id p)
                          (get_cc_totals_for_date_range conn (credit_card_vendor p)
                             (credit_card_account_number p) start_date_str today_str) d)
                        [] pairings;
          earliest_by_id = foldl (\<lambda>d p. dict_set (p_id p)
                          (get_cc_earliest_cycle_date conn (credit_card_vendor p)
                             (credit_card_account_number p) cc_fees_category_id) d)
                        [] pairings;
          cycles_by_pairing_id =
            foldl (append_cycles today cc_totals earliest_by_id pairings)
              (dict_init pairings []) repayments_by_date
      in foldl (\<lambda>discrepancies pairing.
                  dict_set (p_id pairing)
                    (summarize (discrepancy_acknowledged pairing) months_back
                       (sort_by (\<lambda>y x. str_less (cycleDate x) (cycleDate y))
                          (case dict_get cycles_by_pairing_id (p_id pairing) of
                             None \<Rightarrow> [] | Some cs \<Rightarrow> cs)))
                    discrepancies)
           [] pairings)"

definition calculate_discrepancies_app_for_bank_group ::
  "db \<Rightarrow> cdate \<Rightarrow> account_pairing list \<Rightarrow> int \<Rightarrow> nat \<Rightarrow> error + (int \<times> discrepancy) list" where
  "calculate_discrepancies_app_for_bank_group conn today pairings months_back limit =
     (case pairings of
        [] \<Rightarrow> Inr []
      | first # others \<Rightarrow>
          if list_ex (\<lambda>pairing. \<not> same_bank first pairing) others then Inl MixedBankGroup
          else case subtract_calendar_months today months_back of
            Inl e \<Rightarrow> Inl e
          | Inr start_date \<Rightarrow>
              Inr (bank_group_discrepancies conn today start_date pairings months_back limit))"

subsection \<open>Bank account discoverer\<close>

text \<open>A transaction as kept in a group, and a sample transaction of the result.\<close>

record group_txn =
  gt_identifier :: string
  gt_name :: string
  gt_price :: rat
  gt_date :: string

record bank_group =
  bankVendor :: string
  bankAccountNumber :: "string option"
  g_transactions :: "group_txn list"
  matchingLast4Count :: nat
  matchingVendorCount :: nat

record other_candidate =
  oc_bankVendor :: string
  oc_bankAccountNumber :: "string option"
  oc_transactionCount :: nat

record found_account =
  f_bankVendor :: string
  f_bankAccountNumber :: "string option"
  f_transactionCount :: nat
  f_matchingLast4Count :: nat
  f_matchingVendorCount :: nat
  f_matchPatterns :: "string list"
  f_sampleTransactions :: "(string \<times> rat \<times> string) list"
  f_otherCandidates :: "other_candidate list"

text \<open>\<open>{"found": False, "reason": ...}\<close> and \<open>{"found": True, ...}\<close>.\<close>

datatype discovery = NotFound string | Found found_account

fun found :: "discovery \<Rightarrow> bool" where
  "found (NotFound reason) = False"
| "found (Found f) = True"

definition select_bank_rows :: "db \<Rightarrow> string option \<Rightarrow> string option \<Rightarrow> nat \<Rightarrow> txn list" where
  "select_bank_rows conn bank_vendor_filter bank_account_filter limit =
     take limit
       (sort_by (\<lambda>y x. str_less (t_date x) (t_date y))
          (filter (\<lambda>t. t_vendor t \<notin> set (map fst VENDOR_KEYWORDS)
                      \<and> (truthy bank_vendor_filter \<longrightarrow> Some (t_vendor t) = bank_vendor_filter)
                      \<and> (truthy bank_account_filter \<longrightarrow> t_account_number t = bank_account_filter)
                      \<and> t_price t < 0
                      \<and> is_repayment_category conn t)
             (transactions conn)))"

text \<open>The key of a group: \<open>f"{vendor}|{account_number or 'null'}"\<close>.\<close>

definition group_key :: "txn \<Rightarrow> string" where
  "group_key row =
     t_vendor row @ ''|'' @ (case t_account_number row of
                               None \<Rightarrow> ''null''
                             | Some a \<Rightarrow> if a = [] then ''null'' else a)"

definition has_last4 :: "string option \<Rightarrow> string \<Rightarrow> bool" where
  "has_last4 cc_last4 name =
     (case cc_last4 of None \<Rightarrow> False | Some l \<Rightarrow> l \<noteq> [] \<and> name \<noteq> [] \<and> contains name l)"

text \<open>The update of the group of one row: the transaction is appended and the two counters
  are raised when the name has the evidence.\<close>

definition add_row_to_group :: "string option \<Rightarrow> string \<Rightarrow> txn \<Rightarrow> bank_group \<Rightarrow> bank_group" where
  "add_row_to_group cc_last4 credit_card_vendor' row g =
     (let name = name_or_empty (t_name row) in
      g\<lparr>g_transactions := g_transactions g @
            [\<lparr>gt_identifier = t_identifier row, gt_name = name, gt_price = t_price row,
              gt_date = t_date row\<rparr>],
        matchingLast4Count := matchingLast4Count g + (if has_last4 cc_last4 name then 1 else 0),
        matchingVendorCount := matchingVendorCount g
            + (if name_contains_vendor (Some name) (Some credit_card_vendor') then 1 else 0)\<rparr>)"

definition new_group :: "txn \<Rightarrow> bank_group" where
  "new_group row =
     \<lparr>bankVendor = t_vendor row, bankAccountNumber = t_account_number row, g_transactions = [],
      matchingLast4Count = 0, matchingVendorCount = 0\<rparr>"

text \<open>\<open>groups.setdefault(key, ...)\<close> and the update of that group.\<close>

fun add_to_groups ::
  "string option \<Rightarrow> string \<Rightarrow> txn \<Rightarrow> (string \<times> bank_group) list \<Rightarrow> (string \<times> bank_group) list" where
  "add_to_groups cc_last4 ccv row [] = [(group_key row, add_row_to_group cc_last4 ccv row (new_group row))]"
| "add_to_groups cc_last4 ccv row ((k, g) # kgs) =
     (if k = group_key row then (k, add_row_to_group cc_last4 ccv row g) # kgs
      else (k, g) # add_to_groups cc_last4 ccv row kgs)"

definition build_groups :: "string option \<Rightarrow> string \<Rightarrow> txn list \<Rightarrow> (string \<times> bank_group) list" where
  "build_groups cc_last4 ccv rows = foldl (\<lambda>groups row. add_to_groups cc_last4 ccv row groups) [] rows"

text \<open>The sort key of a candidate and the order of Python tuples.\<close>

definition rank_key :: "bank_group \<Rightarrow> nat \<times> nat \<times> nat" where
  "rank_key g = (matchingLast4Count g, matchingVendorCount g, length (g_transactions g))"

fun tuple_less :: "nat \<times> nat \<times> nat \<Rightarrow> nat \<times> nat \<times> nat \<Rightarrow> bool" where
  "tuple_less (a1, a2, a3) (b1, b2, b3) = (a1 < b1 \<or> (a1 = b1 \<and> (a2 < b2 \<or> (a2 = b2 \<and> a3 < b3))))"

text \<open>The surviving groups, ranked.\<close>

definition rank_candidates :: "(string \<times> bank_group) list \<Rightarrow> bank_group list" where
  "rank_candidates groups =
     sort_by (\<lambda>y x. tuple_less (rank_key x) (rank_key y))
       (filter (\<lambda>g. matchingLast4Count g > 0 \<or> matchingVendorCount g > 0) (map snd groups))"

text \<open>The loop that collects up to three transactions of the best group with evidence.\<close>

fun sample_transactions ::
  "string option \<Rightarrow> string \<Rightarrow> group_txn list \<Rightarrow> (string \<times> rat \<times> string) list \<Rightarrow>
   (string \<times> rat \<times> string) list" where
  "sample_transactions cc_last4 ccv [] acc = acc"
| "sample_transactions cc_last4 ccv (txn # rest) acc =
     (if \<not> ((case cc_last4 of None \<Rightarrow> False | Some l \<Rightarrow> l \<noteq> [] \<and> contains (gt_name txn) l)
             \<or> name_contains_vendor (Some (gt_name txn)) (Some ccv))
      then sample_transactions cc_last4 ccv rest acc
      else let acc' = acc @ [(gt_name txn, gt_price txn, gt_date txn)] in
           if length acc' \<ge> 3 then acc' else sample_transactions cc_last4 ccv rest acc')"

definition not_referenced_reason :: "string option \<Rightarrow> string" where
  "not_referenced_reason cc_last4 =
     ''No bank repayments reference this credit card (last4: ''
       @ (case cc_last4 of None \<Rightarrow> ''unknown'' | Some l \<Rightarrow> if l = [] then ''unknown'' else l) @ '')''"

definition find_best_bank_account_app ::
  "db \<Rightarrow> string \<Rightarrow> string option \<Rightarrow> string option \<Rightarrow> string option \<Rightarrow> nat \<Rightarrow> error + discovery" where
  "find_best_bank_account_app conn credit_card_vendor' credit_card_account_number'
      bank_vendor_filter bank_account_filter limit =
     (if credit_card_vendor' = [] then Inl VendorRequired
      else
        let cc_last4 = get_account_last4 credit_card_account_number';
            rows = select_bank_rows conn bank_vendor_filter bank_account_filter limit
        in if rows = [] then Inr (NotFound ''No bank repayment transactions found'')
           else
             let candidates = rank_candidates (build_groups cc_last4 credit_card_vendor' rows) in
             case candidates of
               [] \<Rightarrow> Inr (NotFound (not_referenced_reason cc_last4))
             | best # others \<Rightarrow>
                 Inr (Found
                   \<lparr>f_bankVendor = bankVendor best,
                    f_bankAccountNumber = bankAccountNumber best,
                    f_transactionCount = length (g_transactions best),
                    f_matchingLast4Count = matchingLast4Count best,
                    f_matchingVendorCount = matchingVendorCount best,
                    f_matchPatterns = build_match_patterns credit_card_vendor' credit_card_account_number',
                    f_sampleTransactions =
                      sample_transactions cc_last4 credit_card_vendor' (g_transactions best) [],
                    f_otherCandidates =
                      map (\<lambda>c. \<lparr>oc_bankVendor = bankVendor c, oc_bankAccountNumber = bankAccountNumber c,
                                 oc_transactionCount = length (g_transactions c)\<rparr>)
                        (take 2 others)\<rparr>))"

subsection \<open>Transaction-level matcher\<close>

datatype match_method = sauvage_payment | auto_chronological | carryover

text \<open>A row of the result. \<open>repayment_date\<close> holds the date text of the repayment as
  stored; the source re-renders it with \<open>isoformat()\<close>.\<close>

record expense_match =
  repayment_txn_id :: string
  repayment_vendor :: string
  repayment_date :: string
  repayment_amount :: rat
  card_number :: string
  expense_txn_id :: string
  expense_vendor :: string
  expense_date :: string
  expense_amount :: rat
  expense_name :: "string option"
  match_confidence :: rat
  match_method :: match_method

record period_stats =
  matched_count :: nat
  matched_sum :: rat
  ps_difference :: rat
  perfect_match :: bool
  had_carryover :: bool

text \<open>The statistics of one repayment: the two error dicts, the dict of a sauvage match
  (with its \<open>matched_sum\<close>; count 1, difference 0, perfect), and the full dict.\<close>

datatype match_stats = UnknownCard | NoExpenses | SauvageStats rat | PeriodStats period_stats

text \<open>\<open>pd.to_datetime\<close> on a stored date text, as far as the calendar day goes. Stored
  dates are ISO-8601 texts such as \<open>2025-11-22T22:00:00.000Z\<close>; \<open>None\<close> stands for a text
  that does not start with a calendar date.\<close>

definition to_datetime :: "string \<Rightarrow> cdate option" where
  "to_datetime s = fromisoformat (take 10 s)"

fun prev_day :: "cdate \<Rightarrow> cdate" where
  "prev_day (y, m, d) =
     (if d > 1 then (y, m, d - 1)
      else if m > 1 then (y, m - 1, days_in_month y (m - 1))
      else (y - 1, 12, 31))"

text \<open>\<open>d - timedelta(days=n)\<close>.\<close>

fun minus_days :: "nat \<Rightarrow> cdate \<Rightarrow> cdate" where
  "minus_days 0 d = d"
| "minus_days (Suc n) d = minus_days n (prev_day d)"

definition get_card_from_repayment_name :: "db \<Rightarrow> string option \<Rightarrow> string option \<times> string option" where
  "get_card_from_repayment_name conn repayment_name =
     (case repayment_name of
        None \<Rightarrow> (None, None)
      | Some n \<Rightarrow>
          case find (\<lambda>pairing. list_ex (\<lambda>pattern. contains n pattern) (row_match_patterns pairing))
                 (filter row_is_active (account_pairings conn)) of
            None \<Rightarrow> (None, None)
          | Some pairing \<Rightarrow>
              (row_credit_card_account_number pairing, Some (row_credit_card_vendor pairing)))"

text \<open>The rows of the three look-back queries: outgoing transactions of the card whose date
  text lies between the two day texts and whose amount differs from the repayment's by less
  than \<open>tol\<close>.\<close>

definition near_expenses :: "db \<Rightarrow> string \<Rightarrow> string \<Rightarrow> string \<Rightarrow> string \<Rightarrow> rat \<Rightarrow> rat \<Rightarrow> txn list" where
  "near_expenses conn cc_vendor card_no lookback_str repayment_str amount tol =
     filter (\<lambda>t. t_vendor t = cc_vendor \<and> t_account_number t = Some card_no \<and> t_price t < 0
                \<and> str_le lookback_str (t_date t) \<and> str_le (t_date t) repayment_str
                \<and> \<bar>\<bar>t_price t\<bar> - amount\<bar> < tol)
       (transactions conn)"

definition is_sauvage_repayment :: "db \<Rightarrow> txn \<Rightarrow> string \<Rightarrow> string \<Rightarrow> error + bool" where
  "is_sauvage_repayment conn repayment_row card_no cc_vendor =
     (case to_datetime (t_date repayment_row) of
        None \<Rightarrow> Inl BadTimestamp
      | Some repayment_day \<Rightarrow>
          let repayment_amount' = \<bar>t_price repayment_row\<bar>;
              lookback_str = isoformat (minus_days 7 repayment_day);
              repayment_str = isoformat repayment_day
          in Inr (if snd (snd repayment_day) > 15 then True
                  else if repayment_amount' > 1000
                          \<and> near_expenses conn cc_vendor card_no lookback_str repayment_str repayment_amount' 5 \<noteq> []
                  then True
                  else near_expenses conn cc_vendor card_no lookback_str repayment_str repayment_amount' 1 \<noteq> []))"

text \<open>\<open>identifier NOT IN (SELECT expense_txn_id FROM credit_card_expense_matches WHERE
  expense_vendor = ?)\<close>.\<close>

definition not_persisted :: "db \<Rightarrow> string \<Rightarrow> txn \<Rightarrow> bool" where
  "not_persisted conn cc_vendor t =
     (t_identifier t \<notin> set (map row_expense_txn_id
         (filter (\<lambda>m. row_expense_vendor m = cc_vendor) (credit_card_expense_matches conn))))"

definition check_immediate_payment :: "db \<Rightarrow> rat \<Rightarrow> cdate \<Rightarrow> string \<Rightarrow> string \<Rightarrow> txn option" where
  "check_immediate_payment conn repayment_amount' repayment_day cc_vendor card_no =
     (case sort_by (\<lambda>y x. str_less (t_date x) (t_date y))
             (filter (not_persisted conn cc_vendor)
                (near_expenses conn cc_vendor card_no (isoformat (minus_days 7 repayment_day))
                   (isoformat repayment_day) repayment_amount' 1)) of
        [] \<Rightarrow> None
      | t # rest \<Rightarrow> Some t)"

text \<open>\<open>get_billing_period\<close>: the first and the last day of the month before the repayment;
  \<open>datetime(0, 12, 1)\<close> raises.\<close>

definition get_billing_period :: "cdate \<Rightarrow> error + cdate \<times> cdate" where
  "get_billing_period payment_date =
     (case payment_date of (y, m, d) \<Rightarrow>
        let billing_month = (if m = 1 then 12 else m - 1);
            billing_year = (if m = 1 then y - 1 else y)
        in if billing_year < 1 then Inl DateOutOfRange
           else Inr ((billing_year, billing_month, 1),
                     (billing_year, billing_month, days_in_month billing_year billing_month)))"

definition filter_already_matched :: "txn list \<Rightarrow> (string \<times> string) list \<Rightarrow> txn list" where
  "filter_already_matched expenses_df already_matched_expenses =
     filter (\<lambda>row. (t_identifier row, t_vendor row) \<notin> set already_matched_expenses) expenses_df"

definition tolerance :: rat where "tolerance = 2"

definition make_match :: "txn \<Rightarrow> string \<Rightarrow> match_method \<Rightarrow> txn \<Rightarrow> expense_match" where
  "make_match repayment_row card_no method expense =
     \<lparr>repayment_txn_id = t_identifier repayment_row,
      repayment_vendor = ''discount'',
      repayment_date = t_date repayment_row,
      repayment_amount = \<bar>t_price repayment_row\<bar>,
      card_number = card_no,
      expense_txn_id = t_identifier expense,
      expense_vendor = t_vendor expense,
      expense_date = t_date expense,
      expense_amount = \<bar>t_price expense\<bar>,
      expense_name = t_name expense,
      match_confidence = 1,
      match_method = method\<rparr>"

text \<open>The greedy loop over the expenses, used for the billing period and again for the
  carryover: an expense is taken when the running sum stays within the repayment amount plus
  the tolerance, and the loop ends once the running sum is within the tolerance of it. The
  state is \<open>(matches, running_sum)\<close>.\<close>

fun accumulate ::
  "txn \<Rightarrow> string \<Rightarrow> match_method \<Rightarrow> txn list \<Rightarrow> expense_match list \<times> rat \<Rightarrow> expense_match list \<times> rat" where
  "accumulate repayment_row card_no method [] (matches, running_sum) = (matches, running_sum)"
| "accumulate repayment_row card_no method (expense # rest) (matches, running_sum) =
     (let expense_amount' = \<bar>t_price expense\<bar>; repayment_amount' = \<bar>t_price repayment_row\<bar> in
      if running_sum + expense_amount' \<le> repayment_amount' + tolerance
      then let matches' = matches @ [make_match repayment_row card_no method expense];
               running_sum' = running_sum + expense_amount'
           in if \<bar>running_sum' - repayment_amount'\<bar> \<le> tolerance then (matches', running_sum')
              else accumulate repayment_row card_no method rest (matches', running_sum')
      else accumulate repayment_row card_no method rest (matches, running_sum))"

text \<open>The expenses of the billing period. The two datetimes reach SQLite as the texts
  \<open>YYYY-MM-DD 00:00:00\<close> and \<open>YYYY-MM-DD 23:59:59\<close>.\<close>

definition period_expenses :: "db \<Rightarrow> string \<Rightarrow> string \<Rightarrow> cdate \<Rightarrow> cdate \<Rightarrow> txn list" where
  "period_expenses conn cc_vendor card_no period_start period_end =
     sort_by (\<lambda>y x. str_less (t_date y) (t_date x)
                    \<or> (t_date y = t_date x \<and> opt_str_less (t_name y) (t_name x)))
       (filter (\<lambda>t. t_vendor t = cc_vendor \<and> t_account_number t = Some card_no \<and> t_price t < 0
                   \<and> str_le (isoformat period_start @ '' 00:00:00'') (t_date t)
                   \<and> str_le (t_date t) (isoformat period_end @ '' 23:59:59'')
                   \<and> not_persisted conn cc_vendor t)
          (transactions conn))"

definition later_date :: "cdate \<Rightarrow> cdate \<Rightarrow> cdate" where
  "later_date a b = (if toordinal a < toordinal b then b else a)"

definition carryover_expenses :: "db \<Rightarrow> string \<Rightarrow> string \<Rightarrow> cdate \<Rightarrow> cdate \<Rightarrow> txn list" where
  "carryover_expenses conn cc_vendor card_no lookback_start period_start =
     sort_by (\<lambda>y x. str_less (t_date y) (t_date x))
       (filter (\<lambda>t. t_vendor t = cc_vendor \<and> t_account_number t = Some card_no \<and> t_price t < 0
                   \<and> str_le (isoformat lookback_start) (t_date t)
                   \<and> str_less (t_date t) (isoformat period_start)
                   \<and> not_persisted conn cc_vendor t)
          (transactions conn))"

definition sum_amounts :: "expense_match list \<Rightarrow> rat" where
  "sum_amounts matches = sum_list (map expense_amount matches)"

text \<open>STEP 2 and STEP 3 of \<open>match_repayment_to_expenses\<close>: the billing period and the
  carryover, for a repayment whose card is known and that found no immediate match.\<close>

definition match_period ::
  "db \<Rightarrow> txn \<Rightarrow> string \<Rightarrow> string \<Rightarrow> cdate \<Rightarrow> cdate \<Rightarrow> cdate \<Rightarrow> (string \<times> string) list \<Rightarrow> nat \<Rightarrow>
   expense_match list \<times> match_stats" where
  "match_period conn repayment_row card_no cc_vendor repayment_day period_start period_end
      already_matched_expenses max_lookback_days =
     (let repayment_amount' = \<bar>t_price repayment_row\<bar>;
          expenses = filter_already_matched
                       (period_expenses conn cc_vendor card_no period_start period_end)
                       already_matched_expenses
      in if expenses = [] then ([], NoExpenses)
         else
           case accumulate repayment_row card_no auto_chronological expenses ([], 0) of
             (matches1, running_sum1) \<Rightarrow>
               let difference1 = repayment_amount' - sum_amounts matches1;
                   lookback_start =
                     later_date (minus_days 90 period_start)
                       (minus_days max_lookback_days repayment_day);
                   carry = (if difference1 > tolerance
                            then filter_already_matched
                                   (carryover_expenses conn cc_vendor card_no lookback_start period_start)
                                   already_matched_expenses
                            else []);
                   matches = fst (accumulate repayment_row card_no carryover carry
                                   (matches1, running_sum1));
                   matched_sum' = sum_amounts matches;
                   difference' = repayment_amount' - matched_sum'
               in (matches,
                   PeriodStats
                     \<lparr>matched_count = length matches,
                      matched_sum = matched_sum',
                      ps_difference = difference',
                      perfect_match = (\<bar>difference'\<bar> \<le> tolerance),
                      had_carryover = list_ex (\<lambda>m. match_method m = carryover) matches\<rparr>))"

definition match_repayment_to_expenses ::
  "db \<Rightarrow> txn \<Rightarrow> (string \<times> string) list \<Rightarrow> nat \<Rightarrow> error + expense_match list \<times> match_stats" where
  "match_repayment_to_expenses conn repayment_row already_matched_expenses max_lookback_days =
     (case to_datetime (t_date repayment_row) of
        None \<Rightarrow> Inl BadTimestamp
      | Some repayment_day \<Rightarrow>
          case get_card_from_repayment_name conn (t_name repayment_row) of
            (None, vendor_opt) \<Rightarrow> Inr ([], UnknownCard)
          | (Some card_no, vendor_opt) \<Rightarrow>
              if card_no = [] then Inr ([], UnknownCard)
              else
                let cc_vendor = (case vendor_opt of None \<Rightarrow> [] | Some v \<Rightarrow> v);
                    repayment_amount' = \<bar>t_price repayment_row\<bar>
                in case is_sauvage_repayment conn repayment_row card_no cc_vendor of
                  Inl e \<Rightarrow> Inl e
                | Inr is_sauvage \<Rightarrow>
                    case (if is_sauvage
                          then check_immediate_payment conn repayment_amount' repayment_day cc_vendor card_no
                          else None) of
                      Some immediate_match \<Rightarrow>
                        Inr ([make_match repayment_row card_no sauvage_payment immediate_match],
                             SauvageStats \<bar>t_price immediate_match\<bar>)
                    | None \<Rightarrow>
                        case get_billing_period repayment_day of
                          Inl e \<Rightarrow> Inl e
                        | Inr (period_start, period_end) \<Rightarrow>
                            Inr (match_period conn repayment_row card_no cc_vendor repayment_day
                                   period_start period_end already_matched_expenses
                                   max_lookback_days))"

text \<open>The repayments of a run: completed transactions of the Hebrew repayment category
  from the cut-off day on, oldest first.\<close>

definition select_repayments :: "db \<Rightarrow> txn list" where
  "select_repayments conn =
     sort_by (\<lambda>y x. str_less (t_date y) (t_date x))
       (filter (\<lambda>t. (case category_of conn t of
                       None \<Rightarrow> False
                     | Some cd \<Rightarrow> cd_name cd = Some REPAYMENT_NAME_HE)
                   \<and> t_status t = ''completed''
                   \<and> str_le ''2025-10-01'' (t_date t))
          (transactions conn))"

text \<open>The loop that separates the sauvage repayments from the monthly ones; the state is
  \<open>(sauvage_repayments, monthly_repayments)\<close>.\<close>

fun split_repayments :: "db \<Rightarrow> txn list \<Rightarrow> txn list \<times> txn list \<Rightarrow> error + txn list \<times> txn list" where
  "split_repayments conn [] acc = Inr acc"
| "split_repayments conn (repayment # rest) (sauvage, monthly) =
     (case get_card_from_repayment_name conn (t_name repayment) of
        (Some card_no, vendor_opt) \<Rightarrow>
          if card_no = [] then split_repayments conn rest (sauvage, monthly @ [repayment])
          else (case is_sauvage_repayment conn repayment card_no
                       (case vendor_opt of None \<Rightarrow> [] | Some v \<Rightarrow> v) of
                  Inl e \<Rightarrow> Inl e
                | Inr True \<Rightarrow> split_repayments conn rest (sauvage @ [repayment], monthly)
                | Inr False \<Rightarrow> split_repayments conn rest (sauvage, monthly @ [repayment]))
      | (None, vendor_opt) \<Rightarrow> split_repayments conn rest (sauvage, monthly @ [repayment]))"

text \<open>The state of a run: \<open>all_matches\<close>, \<open>all_stats\<close> and the set \<open>matched_expenses\<close> of
  the keys \<open>(expense_txn_id, expense_vendor)\<close> matched so far.\<close>

record run_state =
  all_matches :: "expense_match list"
  all_stats :: "match_stats list"
  matched_expenses :: "(string \<times> string) list"

text \<open>One of the two processing loops of \<open>main\<close>.\<close>

fun process_repayments :: "db \<Rightarrow> nat \<Rightarrow> txn list \<Rightarrow> run_state \<Rightarrow> error + run_state" where
  "process_repayments conn max_lookback_days [] st = Inr st"
| "process_repayments conn max_lookback_days (repayment # rest) st =
     (case match_repayment_to_expenses conn repayment (matched_expenses st) max_lookback_days of
        Inl e \<Rightarrow> Inl e
      | Inr (matches, stats) \<Rightarrow>
          process_repayments conn max_lookback_days rest
            \<lparr>all_matches = all_matches st @ matches,
             all_stats = all_stats st @ [stats],
             matched_expenses = matched_expenses st
                @ map (\<lambda>m. (expense_txn_id m, expense_vendor m)) matches\<rparr>)"

text \<open>\<open>main\<close>, up to the write of the match table: the matches and statistics of the run
  and the database after it. \<open>sort_values\<close> is modelled as a stable sort. The report
  that follows in the source changes neither.\<close>

definition main :: "db \<Rightarrow> bool \<Rightarrow> error + expense_match list \<times> match_stats list \<times> db" where
  "main conn dry_run =
     (case split_repayments conn (select_repayments conn) ([], []) of
        Inl e \<Rightarrow> Inl e
      | Inr (sauvage_repayments, monthly_repayments) \<Rightarrow>
          case process_repayments conn 365
                 (sort_by (\<lambda>y x. \<bar>t_price y\<bar> < \<bar>t_price x\<bar>) sauvage_repayments)
                 \<lparr>all_matches = [], all_stats = [], matched_expenses = []\<rparr> of
            Inl e \<Rightarrow> Inl e
          | Inr st1 \<Rightarrow>
              case process_repayments conn 90
                     (sort_by (\<lambda>y x. str_less (t_date x) (t_date y)) monthly_repayments) st1 of
                Inl e \<Rightarrow> Inl e
              | Inr st2 \<Rightarrow>
                  Inr (all_matches st2, all_stats st2,
                       if all_matches st2 \<noteq> [] \<and> \<not> dry_run
                       then conn\<lparr>credit_card_expense_matches :=
                              map (\<lambda>m. \<lparr>row_expense_txn_id = expense_txn_id m,
                                         row_expense_vendor = expense_vendor m\<rparr>) (all_matches st2)\<rparr>
                       else conn))"

text \<open>All matched amounts are absolute values.\<close>

definition amounts_nonneg :: "expense_match list \<Rightarrow> bool" where
  "amounts_nonneg ms = list_all (\<lambda>m. 0 \<le> expense_amount m) ms"

subsection \<open>Notions used to state the properties\<close>


text \<open>The sum of the absolute amounts of a list of repayments.\<close>

definition abs_total :: "repayment list \<Rightarrow> rat" where
  "abs_total rps = sum_list (map (\<lambda>rp. \<bar>rp_price rp\<bar>) rps)"

text \<open>Every bucket carries the sum of the absolute amounts of its repayments.\<close>

definition buckets_ok :: "(string \<times> bucket) list \<Rightarrow> bool" where
  "buckets_ok kbs = list_all (\<lambda>kb. bucket_bankTotal (snd kb) = abs_total (bucket_repayments (snd kb))) kbs"

text \<open>What the scan over the card rows leaves in its accumulator.\<close>

definition scan_ok :: "rat \<Rightarrow> rat option \<times> string option \<times> cycle_status \<Rightarrow> bool" where
  "scan_ok bank acc = (case acc of (t, a, st) \<Rightarrow>
     (t = None \<and> st = missing_cc_cycle)
     \<or> (\<exists>tv. t = Some tv \<and> 0 \<le> tv \<and> ((st = matched \<and> \<bar>bank - tv\<bar> \<le> EPSILON)
            \<or> (st = fee_candidate \<and> EPSILON < bank - tv \<and> bank - tv \<le> MAX_FEE_AMOUNT))))"


text \<open>The bank total as the specification words it in its aggregate: the sum of
  \<open>bankTotal\<close> over all cycles not flagged \<open>incomplete_history\<close>.\<close>

definition claimed_total_bank :: "cycle list \<Rightarrow> rat" where
  "claimed_total_bank cs = sum_list (map bankTotal (filter (\<lambda>c. status c \<noteq> incomplete_history) cs))"

text \<open>An amount of whole hundredths.\<close>

definition cents :: "rat \<Rightarrow> bool" where
  "cents x = (\<exists>n::int. x = of_int n / 100)"


text \<open>The invariant of the loop over the repayments of one date.\<close>

definition alloc_inv :: "account_pairing list \<Rightarrow> repayment list \<Rightarrow> allocation \<Rightarrow> bool" where
  "alloc_inv ps seen a =
     ((\<forall>k. total_of (assigned_total_by_id a) k = abs_total (txns_of (assigned_txns_by_id a) k))
      \<and> mset (concat (map (\<lambda>p. txns_of (assigned_txns_by_id a) (p_id p)) ps)) + mset (unassigned a)
          = mset seen)"

text \<open>Deduplication in first-seen order, as the specification words the match patterns:
  every text is kept where it occurs first.\<close>

fun dedup_first :: "string list \<Rightarrow> string list" where
  "dedup_first [] = []"
| "dedup_first (x # xs) = x # dedup_first (filter (\<lambda>y. y \<noteq> x) xs)"

text \<open>The patterns before deduplication, as the specification lists them: the vendor
  keywords, the account number and its last four characters.\<close>

definition pattern_sources :: "string \<Rightarrow> string option \<Rightarrow> string list" where
  "pattern_sources cc_vendor cc_account_number =
     keywords_of cc_vendor
       @ (case cc_account_number of None \<Rightarrow> [] | Some a \<Rightarrow> [a])
       @ (case get_account_last4 cc_account_number of None \<Rightarrow> [] | Some l \<Rightarrow> [l])"

text \<open>The entry of the result for a runner-up.\<close>

definition to_other_candidate :: "bank_group \<Rightarrow> other_candidate" where
  "to_other_candidate c =
     \<lparr>oc_bankVendor = bankVendor c, oc_bankAccountNumber = bankAccountNumber c,
      oc_transactionCount = length (g_transactions c)\<rparr>"

text \<open>The key of the expense of a match, and the matches of a run; none when it raised.\<close>

definition match_key :: "expense_match \<Rightarrow> string \<times> string" where
  "match_key m = (expense_txn_id m, expense_vendor m)"

fun main_matches :: "error + expense_match list \<times> match_stats list \<times> db \<Rightarrow> expense_match list" where
  "main_matches (Inl e) = []"
| "main_matches (Inr (ms, stats, conn)) = ms"

section \<open>Example ledgers\<close>

text \<open>Concrete ledgers on which the properties below are exercised. All rows are completed
  transactions with an account number and a name.\<close>

definition mk_txn :: "string \<Rightarrow> string \<Rightarrow> string \<Rightarrow> string \<Rightarrow> string \<Rightarrow> rat \<Rightarrow> int option \<Rightarrow> txn" where
  "mk_txn i v a d n p c =
     \<lparr>t_identifier = i, t_vendor = v, t_account_number = Some a, t_date = d,
      t_processed_date = None, t_name = Some n, t_price = p, t_status = ''completed'',
      t_category_definition_id = c\<rparr>"

definition ex_categories :: "category_definition list" where
  "ex_categories =
     [\<lparr>cd_id = 1, cd_name = Some REPAYMENT_NAME_HE, cd_name_en = Some ''Credit Card Repayment'',
       cd_name_fr = None\<rparr>]"

definition ex_pairing_rows :: "pairing_row list" where
  "ex_pairing_rows =
     [\<lparr>row_id = 1, row_credit_card_vendor = ''visaCal'', row_credit_card_account_number = Some ''1456'',
       row_bank_vendor = ''discount'', row_bank_account_number = Some ''0162490242'',
       row_match_patterns = [''1456''], row_is_active = True, row_discrepancy_acknowledged = False\<rparr>]"

definition mk_db :: "txn list \<Rightarrow> db" where
  "mk_db ts =
     \<lparr>transactions = ts, category_definitions = ex_categories, account_pairings = ex_pairing_rows,
      has_ack_column = True, credit_card_expense_matches = []\<rparr>"

subsection \<open>A monthly repayment settled from its billing period and a carryover\<close>

text \<open>A repayment of 300 on 9 November: the October expenses of 100 and 150 are taken, the
  one of 80 would overshoot, and the September expense of 49 is carried over.\<close>

definition period_repayment :: txn where
  "period_repayment =
     mk_txn ''r1'' ''discount'' ''0162490242'' ''2025-11-09T22:00:00.000Z'' ''visa 1456'' (- 300) (Some 1)"

definition period_e1 :: txn where
  "period_e1 = mk_txn ''e1'' ''visaCal'' ''1456'' ''2025-10-05T10:00:00.000Z'' ''shop a'' (- 100) None"

definition period_e2 :: txn where
  "period_e2 = mk_txn ''e2'' ''visaCal'' ''1456'' ''2025-10-12T10:00:00.000Z'' ''shop b'' (- 150) None"

definition period_e3 :: txn where
  "period_e3 = mk_txn ''e3'' ''visaCal'' ''1456'' ''2025-10-20T10:00:00.000Z'' ''shop c'' (- 80) None"

definition period_e4 :: txn where
  "period_e4 = mk_txn ''e4'' ''visaCal'' ''1456'' ''2025-09-15T10:00:00.000Z'' ''shop d'' (- 49) None"

definition period_db :: db where
  "period_db = mk_db [period_repayment, period_e1, period_e2, period_e3, period_e4]"

definition period_matches :: "expense_match list" where
  "period_matches =
     [make_match period_repayment ''1456'' auto_chronological period_e1,
      make_match period_repayment ''1456'' auto_chronological period_e2,
      make_match period_repayment ''1456'' carryover period_e4]"

definition period_result_stats :: period_stats where
  "period_result_stats =
     \<lparr>matched_count = 3, matched_sum = 299, ps_difference = 1, perfect_match = True,
      had_carryover = True\<rparr>"

subsection \<open>Five cycles of one pairing\<close>

text \<open>Repayments of the bank account \<open>discount:0162490242\<close> for the card \<open>visaCal:1456\<close>
  and the card's charges, with a first charge in June 2025. Seen from 20 January 2026 the
  cycles are, newest first: 500 against a billed 800 eleven days ago, 1000 without any
  billing row, 3900 against 3500, 3620 against 3500 and 3500 against 3500.\<close>

definition cyc_repayment :: "string \<Rightarrow> rat \<Rightarrow> txn" where
  "cyc_repayment d amt =
     mk_txn (''rp-'' @ d) ''discount'' ''0162490242'' (d @ ''T22:00:00.000Z'') ''visa cal 1456''
       (- amt) (Some 1)"

definition cyc_charge :: "string \<Rightarrow> rat \<Rightarrow> txn" where
  "cyc_charge d amt =
     mk_txn (''cc-'' @ d) ''visaCal'' ''1456'' (d @ ''T08:00:00.000Z'') ''shop'' (- amt) None"

definition cycle_db :: db where
  "cycle_db = mk_db
     [cyc_repayment ''2025-09-09'' 3500, cyc_repayment ''2025-10-09'' 3620,
      cyc_repayment ''2025-11-09'' 3900, cyc_repayment ''2025-12-09'' 1000,
      cyc_repayment ''2026-01-09'' 500,
      cyc_charge ''2025-06-01'' 10, cyc_charge ''2025-09-09'' 3500, cyc_charge ''2025-10-09'' 3500,
      cyc_charge ''2025-11-09'' 3500, cyc_charge ''2026-01-09'' 800]"

text \<open>The cycle expected for a single repayment of \<open>bank\<close> on day \<open>d\<close>.\<close>

definition cyc :: "string \<Rightarrow> rat \<Rightarrow> rat option \<Rightarrow> cycle_status \<Rightarrow> string option \<Rightarrow> cycle" where
  "cyc d bank cc st acct =
     \<lparr>cycleDate = d, bankTotal = bank, ccTotal = cc, difference = map_option (\<lambda>c. bank - c) cc,
      repayments = [to_repayment (cyc_repayment d bank)], status = st, matchedAccount = acct\<rparr>"

definition fee_cycle :: cycle where
  "fee_cycle = cyc ''2025-10-09'' 3620 (Some 3500) fee_candidate (Some ''1456'')"

definition recent_cycle :: cycle where
  "recent_cycle = cyc ''2026-01-09'' 500 (Some 800) incomplete_history (Some ''1456'')"

definition cycle_summary :: discrepancy where
  "cycle_summary =
     \<lparr>d_exists = True, d_acknowledged = False, totalBankRepayments = 11020,
      totalCCExpenses = 10500, d_difference = 520, differencePercentage = 495 / 100,
      periodMonths = 6, matchedCycleCount = 1, totalCycles = 5,
      cycles =
        [recent_cycle,
         cyc ''2025-12-09'' 1000 None missing_cc_cycle None,
         cyc ''2025-11-09'' 3900 (Some 3500) large_discrepancy (Some ''1456''),
         fee_cycle,
         cyc ''2025-09-09'' 3500 (Some 3500) matched (Some ''1456'')]\<rparr>"

subsection \<open>A repayment with a fraction of a hundredth\<close>



subsection \<open>A pairing without a card account number\<close>


subsection \<open>An allocation\<close>

definition ex_pairing :: account_pairing where
  "ex_pairing =
     \<lparr>p_id = 1, credit_card_vendor = ''visaCal'', credit_card_account_number = Some ''1456'',
      bank_vendor = ''discount'', bank_account_number = Some ''0162490242'',
      match_patterns = [''1456''], is_active = True, discrepancy_acknowledged = False\<rparr>"

text \<open>The repayment of 3620 of 9 October, assigned to the pairing.\<close>

definition ex_allocation :: allocation where
  "ex_allocation =
     \<lparr>assigned_total_by_id = [(1, 3620)],
      assigned_txns_by_id = [(1, [to_repayment (cyc_repayment ''2025-10-09'' 3620)])],
      unassigned = []\<rparr>"

definition ex_cc_totals :: "(int \<times> (string \<times> rat) list) list" where
  "ex_cc_totals = [(1, [(''2025-10-09'', 3500), (''2026-01-09'', 800)])]"

definition ex_earliest :: "(int \<times> cdate option) list" where
  "ex_earliest = [(1, Some (2025, 6, 1))]"

text \<open>Two cycles of the five as they are before the grace-period pass.\<close>

definition raw_recent_cycle :: cycle where
  "raw_recent_cycle = cyc ''2026-01-09'' 500 (Some 800) cc_over_bank (Some ''1456'')"

definition matched_cycle :: cycle where
  "matched_cycle = cyc ''2025-09-09'' 3500 (Some 3500) matched (Some ''1456'')"

subsection \<open>Two cards repaid from one bank account\<close>

definition max_pairing :: account_pairing where
  "max_pairing =
     \<lparr>p_id = 2, credit_card_vendor = ''max'', credit_card_account_number = Some ''7788'',
      bank_vendor = ''discount'', bank_account_number = Some ''0162490242'',
      match_patterns = [''7788''], is_active = True, discrepancy_acknowledged = False\<rparr>"

text \<open>The same card paired with another bank.\<close>

definition other_bank_pairing :: account_pairing where
  "other_bank_pairing = max_pairing\<lparr>bank_vendor := ''leumiBank''\<rparr>"

definition mk_repayment :: "string \<Rightarrow> string \<Rightarrow> rat \<Rightarrow> repayment" where
  "mk_repayment i n amt =
     \<lparr>rp_identifier = i, rp_vendor = ''discount'', rp_accountNumber = Some ''0162490242'',
      rp_date = ''2025-10-09T22:00:00.000Z'', rp_cycleDate = ''2025-10-09'', rp_name = n,
      rp_price = - amt\<rparr>"

text \<open>Three repayments of one day: one names the first card, one the second, and one of 50
  names neither.\<close>

definition shared_repayments :: "repayment list" where
  "shared_repayments =
     [mk_repayment ''s1'' ''transfer'' 50, mk_repayment ''s2'' ''max 7788'' 1200,
      mk_repayment ''s3'' ''visa cal 1456'' 3500]"

definition shared_cc_totals :: "(int \<times> (string \<times> rat) list) list" where
  "shared_cc_totals = [(1, [(''2025-10-09'', 3500)]), (2, [(''2025-10-09'', 1200)])]"

definition shared_allocation :: allocation where
  "shared_allocation =
     allocate_bucket [ex_pairing, max_pairing] shared_cc_totals ''2025-10-09'' shared_repayments"

subsection \<open>Three bank accounts with repayments\<close>

text \<open>Two repayments of \<open>discount:0162490242\<close> name the card by vendor and last four digits,
  one of \<open>leumiBank:999\<close> names the vendor only, and one of \<open>hapoalim:5\<close> names neither.\<close>

definition discover_db :: db where
  "discover_db = mk_db
     [cyc_repayment ''2025-09-09'' 3500, cyc_repayment ''2025-10-09'' 3620,
      mk_txn ''l1'' ''leumiBank'' ''999'' ''2025-10-02T22:00:00.000Z'' ''Visa CAL card'' (- 100) (Some 1),
      mk_txn ''h1'' ''hapoalim'' ''5'' ''2025-10-03T22:00:00.000Z'' ''card repayment'' (- 70) (Some 1),
      cyc_charge ''2025-09-09'' 3500]"

definition discover_found :: found_account where
  "discover_found =
     \<lparr>f_bankVendor = ''discount'', f_bankAccountNumber = Some ''0162490242'',
      f_transactionCount = 2, f_matchingLast4Count = 2, f_matchingVendorCount = 2,
      f_matchPatterns = keywords_of ''visaCal'' @ [''1456''],
      f_sampleTransactions =
        [(''visa cal 1456'', - 3620, ''2025-10-09T22:00:00.000Z''),
         (''visa cal 1456'', - 3500, ''2025-09-09T22:00:00.000Z'')],
      f_otherCandidates =
        [\<lparr>oc_bankVendor = ''leumiBank'', oc_bankAccountNumber = Some ''999'',
          oc_transactionCount = 1\<rparr>]\<rparr>"

subsection \<open>Repayments outside the monthly cycle\<close>

text \<open>A repayment of 1200 on the 20th of November, and a single purchase on the card three
  days before: of 1199.50 in the first ledger, of 1199 in the second.\<close>

definition sauvage_repayment :: txn where
  "sauvage_repayment =
     mk_txn ''r20'' ''discount'' ''0162490242'' ''2025-11-20T22:00:00.000Z'' ''visa 1456'' (- 1200) (Some 1)"

definition sauvage_expense :: txn where
  "sauvage_expense =
     mk_txn ''e1'' ''visaCal'' ''1456'' ''2025-11-17T10:00:00.000Z'' ''laptop'' (- (11995 / 10)) None"




text \<open>A second repayment, of 1199.80 on the 21st, next to the first one and the purchase of
  1199.50.\<close>

definition second_repayment :: txn where
  "second_repayment =
     mk_txn ''r21'' ''discount'' ''0162490242'' ''2025-11-21T22:00:00.000Z'' ''visa 1456''
       (- (11998 / 10)) (Some 1)"

definition double_db :: db where
  "double_db = mk_db [sauvage_repayment, second_repayment, sauvage_expense]"

section \<open>Properties\<close>

subsection \<open>Sorting keeps the elements\<close>

lemma set_insert_by: "set (insert_by p x xs) = insert x (set xs)"
  by (induction xs) auto

lemma set_sort_by: "set (sort_by p xs) = set xs"
  by (induction xs) (simp_all add: sort_by_def set_insert_by)

lemma mset_insert_by: "mset (insert_by p x xs) = add_mset x (mset xs)"
  by (induction xs) auto

lemma mset_sort_by: "mset (sort_by p xs) = mset xs"
  by (induction xs) (simp_all add: sort_by_def mset_insert_by)

subsection \<open>Rounding to hundredths\<close>

lemma round_half_even_of_int: "round_half_even (of_int n) = n"
  by (simp add: round_half_even_def)

lemma round2_cents: "cents x \<Longrightarrow> round2 x = x"
  by (auto simp: cents_def round2_def round_half_even_of_int)

lemma cents_round2: "cents (round2 x)"
  by (auto simp: cents_def round2_def)

lemma cents_0: "cents 0"
  unfolding cents_def by (rule exI[of _ 0]) simp

lemma cents_add: "cents x \<Longrightarrow> cents y \<Longrightarrow> cents (x + y)"
  unfolding cents_def
proof -
  assume "\<exists>n::int. x = of_int n / 100" "\<exists>n::int. y = of_int n / 100"
  then obtain n m :: int where "x = of_int n / 100" "y = of_int m / 100" by blast
  then have "x + y = of_int (n + m) / 100" by (simp add: add_divide_distrib)
  then show "\<exists>k::int. x + y = of_int k / 100" by blast
qed

lemma cents_diff: "cents x \<Longrightarrow> cents y \<Longrightarrow> cents (x - y)"
  unfolding cents_def
proof -
  assume "\<exists>n::int. x = of_int n / 100" "\<exists>n::int. y = of_int n / 100"
  then obtain n m :: int where "x = of_int n / 100" "y = of_int m / 100" by blast
  then have "x - y = of_int (n - m) / 100" by (simp add: diff_divide_distrib)
  then show "\<exists>k::int. x - y = of_int k / 100" by blast
qed

lemma cents_sum_list: "(\<And>x. x \<in> set xs \<Longrightarrow> cents x) \<Longrightarrow> cents (sum_list xs)"
  by (induction xs) (simp_all add: cents_0 cents_add)

lemma round2_nonneg: "0 \<le> x \<Longrightarrow> 0 \<le> round2 x"
proof -
  assume "0 \<le> x"
  then have "0 \<le> \<lfloor>x * 100\<rfloor>" by simp
  then have "0 \<le> round_half_even (x * 100)"
    by (auto simp: round_half_even_def Let_def)
  then show ?thesis by (simp add: round2_def)
qed

subsection \<open>Classification of a cycle\<close>

lemma add_to_bucket_ok: "buckets_ok kbs \<Longrightarrow> buckets_ok (add_to_bucket row kbs)"
  by (induction kbs) (auto simp: buckets_ok_def abs_total_def to_repayment_def)

lemma foldl_buckets_ok:
  "buckets_ok acc \<Longrightarrow> buckets_ok (foldl (\<lambda>acc row. add_to_bucket row acc) acc rows)"
  by (induction rows arbitrary: acc) (simp_all add: add_to_bucket_ok)

lemma bucket_repayments_by_date_ok: "buckets_ok (bucket_repayments_by_date rows)"
  unfolding bucket_repayments_by_date_def by (rule foldl_buckets_ok) (simp add: buckets_ok_def)

lemma scan_step_match:
  "\<bar>bank - max 0 (r_total r)\<bar> \<le> EPSILON \<Longrightarrow>
   scan_cc_rows bank (r # rows) acc = (Some (max 0 (r_total r)), r_account_number r, matched)"
  by (simp only: scan_cc_rows.simps Let_def if_True)

lemma scan_step_fee:
  "\<not> \<bar>bank - max 0 (r_total r)\<bar> \<le> EPSILON \<Longrightarrow>
   \<bar>bank - max 0 (r_total r)\<bar> \<le> MAX_FEE_AMOUNT \<and> \<bar>bank - max 0 (r_total r)\<bar> > EPSILON
     \<and> bank > max 0 (r_total r) \<Longrightarrow>
   scan_cc_rows bank (r # rows) acc =
     scan_cc_rows bank rows (Some (max 0 (r_total r)), r_account_number r, fee_candidate)"
  by (simp only: scan_cc_rows.simps Let_def if_True if_False simp_thms)

lemma scan_step_skip:
  "\<not> \<bar>bank - max 0 (r_total r)\<bar> \<le> EPSILON \<Longrightarrow>
   \<not> (\<bar>bank - max 0 (r_total r)\<bar> \<le> MAX_FEE_AMOUNT \<and> \<bar>bank - max 0 (r_total r)\<bar> > EPSILON
     \<and> bank > max 0 (r_total r)) \<Longrightarrow>
   scan_cc_rows bank (r # rows) acc = scan_cc_rows bank rows acc"
  by (simp only: scan_cc_rows.simps Let_def if_False)

lemma scan_cc_rows_ok: "scan_ok bank acc \<Longrightarrow> scan_ok bank (scan_cc_rows bank rows acc)"
proof (induction rows arbitrary: acc)
  case Nil
  then show ?case by simp
next
  case (Cons r rows)
  let ?t = "max 0 (r_total r)"
  consider (m) "\<bar>bank - ?t\<bar> \<le> EPSILON"
    | (f) "\<not> \<bar>bank - ?t\<bar> \<le> EPSILON" "\<bar>bank - ?t\<bar> \<le> MAX_FEE_AMOUNT \<and> \<bar>bank - ?t\<bar> > EPSILON \<and> bank > ?t"
    | (n) "\<not> \<bar>bank - ?t\<bar> \<le> EPSILON" "\<not> (\<bar>bank - ?t\<bar> \<le> MAX_FEE_AMOUNT \<and> \<bar>bank - ?t\<bar> > EPSILON \<and> bank > ?t)"
    by blast
  then show ?case
  proof cases
    case m
    show ?thesis unfolding scan_step_match[OF m] using m by (simp add: scan_ok_def)
  next
    case f
    have "scan_ok bank (Some ?t, r_account_number r, fee_candidate)"
      using f by (auto simp: scan_ok_def)
    from Cons.IH[OF this] show ?thesis unfolding scan_step_fee[OF f] .
  next
    case n
    from Cons.IH[OF Cons.prems] show ?thesis unfolding scan_step_skip[OF n] .
  qed
qed




lemma make_cycle_fields:
  "bucket_bankTotal b = abs_total (bucket_repayments b) \<Longrightarrow>
   c = make_cycle conn fid cv ca (k, b) \<Longrightarrow>
   cycleDate c = k \<and> repayments c = bucket_repayments b
   \<and> bankTotal c = round2 (abs_total (repayments c))
   \<and> ccTotal c = map_option round2 (fst (classify_cycle (abs_total (repayments c)) (select_cc_rows conn fid cv k ca) ca))
   \<and> status c = snd (snd (classify_cycle (abs_total (repayments c)) (select_cc_rows conn fid cv k ca) ca))"
  by (auto simp: make_cycle_def split: prod.splits)

lemma app_cycle_origin:
  assumes "calculate_discrepancy_app conn today pid bv ba cv ca months lmt = Inr r"
    and "c \<in> set (result_cycles r)"
  shows "\<exists>k b. bucket_bankTotal b = abs_total (bucket_repayments b)
           \<and> c = grace_relabel today (get_cc_earliest_cycle_date conn cv ca (get_cc_fees_category_id conn))
                   (make_cycle conn (cc_fees_category_id_value conn) cv ca (k, b))"
proof -
  from assms obtain rows where
    c: "c \<in> grace_relabel today (get_cc_earliest_cycle_date conn cv ca (get_cc_fees_category_id conn))
           ` make_cycle conn (cc_fees_category_id_value conn) cv ca ` set (bucket_repayments_by_date rows)"
    unfolding calculate_discrepancy_app_def
    by (auto simp: Let_def summarize_def set_sort_by split: if_splits sum.splits)
  then obtain k b where kb: "(k, b) \<in> set (bucket_repayments_by_date rows)"
    and ceq: "c = grace_relabel today (get_cc_earliest_cycle_date conn cv ca (get_cc_fees_category_id conn))
                   (make_cycle conn (cc_fees_category_id_value conn) cv ca (k, b))"
    by auto
  from bucket_repayments_by_date_ok[of rows] kb
  have "bucket_bankTotal b = abs_total (bucket_repayments b)"
    by (auto simp: buckets_ok_def list_all_iff)
  with ceq show ?thesis by blast
qed



lemma status_grace_relabel:
  "status (grace_relabel today earliest c) = grace_status today earliest (cycleDate c) (status c)"
  by (simp add: grace_relabel_def grace_status_def split: option.splits)

lemma grace_relabel_fields:
  "cycleDate (grace_relabel today earliest c) = cycleDate c"
  "bankTotal (grace_relabel today earliest c) = bankTotal c"
  "ccTotal (grace_relabel today earliest c) = ccTotal c"
  "repayments (grace_relabel today earliest c) = repayments c"
  by (simp_all add: grace_relabel_def split: option.splits)


lemma classify_cycle_nonneg:
  "classify_cycle bank rows ca = (Some tv, a, st) \<Longrightarrow> 0 \<le> tv"
proof -
  assume eq: "classify_cycle bank rows ca = (Some tv, a, st)"
  obtain t0 a0 st0 where sc: "scan_cc_rows bank rows (None, None, missing_cc_cycle) = (t0, a0, st0)"
    by (cases "scan_cc_rows bank rows (None, None, missing_cc_cycle)") auto
  have ok0: "scan_ok bank (t0, a0, st0)"
    using scan_cc_rows_ok[of bank "(None, None, missing_cc_cycle)" rows] sc by (simp add: scan_ok_def)
  show ?thesis
  proof (cases "rows = []")
    case True
    with eq show ?thesis by (simp add: classify_cycle_def)
  next
    case False
    with eq sc ok0 show ?thesis
      by (auto simp: classify_cycle_def Let_def scan_ok_def split: if_splits option.splits)
  qed
qed

lemma app_cycle_amounts:
  assumes "calculate_discrepancy_app conn today pid bv ba cv ca months lmt = Inr r"
    and "c \<in> set (result_cycles r)"
  shows "cents (bankTotal c) \<and> (\<forall>v. ccTotal c = Some v \<longrightarrow> cents v \<and> 0 \<le> v)"
proof -
  let ?E = "get_cc_earliest_cycle_date conn cv ca (get_cc_fees_category_id conn)"
  from app_cycle_origin[OF assms] obtain k b where
    bok: "bucket_bankTotal b = abs_total (bucket_repayments b)"
    and ceq: "c = grace_relabel today ?E (make_cycle conn (cc_fees_category_id_value conn) cv ca (k, b))"
    by blast
  define c0 where "c0 = make_cycle conn (cc_fees_category_id_value conn) cv ca (k, b)"
  note f = make_cycle_fields[OF bok c0_def]
  let ?cl = "classify_cycle (abs_total (repayments c0)) (select_cc_rows conn (cc_fees_category_id_value conn) cv k ca) ca"
  have same: "bankTotal c = bankTotal c0" "ccTotal c = ccTotal c0"
    using ceq by (simp_all add: c0_def grace_relabel_fields)
  obtain t a0 st0 where cl: "?cl = (t, a0, st0)" by (cases ?cl) auto
  have "cents (bankTotal c)" using f same by (simp add: cents_round2)
  moreover have "cents v \<and> 0 \<le> v" if "ccTotal c = Some v" for v
  proof -
    from that f same cl obtain tv where tv: "t = Some tv" "v = round2 tv" by auto
    from classify_cycle_nonneg[of _ _ ca tv a0 st0] cl tv have "0 \<le> tv" by simp
    with tv show ?thesis by (simp add: cents_round2 round2_nonneg)
  qed
  ultimately show ?thesis by blast
qed

lemma app_is_summary:
  "calculate_discrepancy_app conn today pid bv ba cv ca months lmt = Inr (Discrepancy d) \<Longrightarrow>
   d = summarize (lookup_acknowledged conn pid) months (cycles d)"
  unfolding calculate_discrepancy_app_def
  by (auto simp: Let_def summarize_def split: if_splits sum.splits)

lemma summarize_totals:
  assumes am: "\<And>c. c \<in> set cs \<Longrightarrow> cents (bankTotal c) \<and> (\<forall>v. ccTotal c = Some v \<longrightarrow> cents v \<and> 0 \<le> v)"
    and d: "d = summarize ack months cs"
  shows "totalBankRepayments d = sum_list (map bankTotal (comparable cs))
       \<and> totalCCExpenses d = sum_list (map (\<lambda>c. case ccTotal c of None \<Rightarrow> 0 | Some v \<Rightarrow> v) (comparable cs))
       \<and> d_difference d = totalBankRepayments d - totalCCExpenses d
       \<and> 0 \<le> totalCCExpenses d
       \<and> differencePercentage d =
           (if totalCCExpenses d = 0 then 0
            else round2 (d_difference d / totalCCExpenses d * 100))
       \<and> (d_exists d \<longleftrightarrow> (\<exists>c\<in>set cs. actionable (status c)) \<and> \<not> ack)
       \<and> d_acknowledged d = ack \<and> cycles d = cs"
proof -
  let ?tb = "sum_list (map bankTotal (comparable cs))"
  let ?tc = "sum_list (map (\<lambda>c. case ccTotal c of None \<Rightarrow> 0 | Some v \<Rightarrow> v) (comparable cs))"
  have sub: "set (comparable cs) \<subseteq> set cs" by (auto simp: comparable_def)
  have cb: "cents ?tb" using am sub by (intro cents_sum_list) auto
  have cc: "cents ?tc"
  proof (intro cents_sum_list)
    fix x assume "x \<in> set (map (\<lambda>c. case ccTotal c of None \<Rightarrow> 0 | Some v \<Rightarrow> v) (comparable cs))"
    then obtain c where "c \<in> set cs" "x = (case ccTotal c of None \<Rightarrow> 0 | Some v \<Rightarrow> v)"
      using sub by auto
    with am[of c] show "cents x" by (cases "ccTotal c") (simp_all add: cents_0)
  qed
  have nn: "0 \<le> ?tc"
  proof (intro sum_list_nonneg)
    fix x assume "x \<in> set (map (\<lambda>c. case ccTotal c of None \<Rightarrow> 0 | Some v \<Rightarrow> v) (comparable cs))"
    then obtain c where "c \<in> set cs" "x = (case ccTotal c of None \<Rightarrow> 0 | Some v \<Rightarrow> v)"
      using sub by auto
    with am[of c] show "0 \<le> x" by (cases "ccTotal c") simp_all
  qed
  have r1: "round2 ?tb = ?tb" using cb by (rule round2_cents)
  have r2: "round2 ?tc = ?tc" using cc by (rule round2_cents)
  have r3: "round2 (?tb - ?tc) = ?tb - ?tc" using cents_diff[OF cb cc] by (rule round2_cents)
  have ex: "list_ex (\<lambda>c. actionable (status c)) cs \<longleftrightarrow> (\<exists>c\<in>set cs. actionable (status c))"
    by (simp add: list_ex_iff)
  show ?thesis
    unfolding d summarize_def Let_def
    using r1 r2 r3 nn ex by auto
qed









subsection \<open>Allocation of the repayments of one date\<close>

lemma map_of_dict_set: "map_of (dict_set k v d) k' = (if k' = k then Some v else map_of d k')"
  by (induction d) auto

lemma total_of_dict_set:
  "total_of (dict_set k v d) k' = (if k' = k then v else total_of d k')"
  by (simp add: total_of_def dict_get_def map_of_dict_set)

lemma txns_of_dict_set:
  "txns_of (dict_set k v d) k' = (if k' = k then v else txns_of d k')"
  by (simp add: txns_of_def dict_get_def map_of_dict_set)

lemma map_of_dict_fold:
  "map_of (foldl (\<lambda>d p. dict_set (p_id p) v d) d0 ps) k =
     (if k \<in> p_id ` set ps then Some v else map_of d0 k)"
  by (induction ps arbitrary: d0) (auto simp: map_of_dict_set)

lemma total_of_dict_init: "total_of (dict_init ps 0) k = 0"
  by (simp add: total_of_def dict_get_def dict_init_def map_of_dict_fold)

lemma txns_of_dict_init: "txns_of (dict_init ps []) k = []"
  by (simp add: txns_of_def dict_get_def dict_init_def map_of_dict_fold)

lemma sum_list_bump:
  "distinct (map f ps) \<Longrightarrow> b \<in> set ps \<Longrightarrow>
   sum_list (map (\<lambda>p. if f p = f b then g p + x else g p) ps) = sum_list (map g ps) + (x::rat)"
proof (induction ps)
  case Nil
  then show ?case by simp
next
  case (Cons p ps)
  show ?case
  proof (cases "p = b")
    case True
    with Cons.prems have "f b \<notin> f ` set ps" by simp
    then have "\<forall>q\<in>set ps. f q \<noteq> f b" by (metis imageI)
    then have "sum_list (map (\<lambda>p. if f p = f b then g p + x else g p) ps) = sum_list (map g ps)"
      by (induction ps) auto
    with True show ?thesis by simp
  next
    case False
    with Cons.prems have b: "b \<in> set ps" and d: "distinct (map f ps)" and ne: "f p \<noteq> f b"
      by auto
    from Cons.IH[OF d b] ne show ?thesis by simp
  qed
qed

lemma mset_concat_bump:
  "distinct (map f ps) \<Longrightarrow> b \<in> set ps \<Longrightarrow>
   mset (concat (map (\<lambda>p. if f p = f b then g p @ [r] else g p) ps))
     = add_mset r (mset (concat (map g ps)))"
proof (induction ps)
  case Nil
  then show ?case by simp
next
  case (Cons p ps)
  show ?case
  proof (cases "p = b")
    case True
    with Cons.prems have "f b \<notin> f ` set ps" by simp
    then have "\<forall>q\<in>set ps. f q \<noteq> f b" by (metis imageI)
    then have "concat (map (\<lambda>p. if f p = f b then g p @ [r] else g p) ps) = concat (map g ps)"
      by (induction ps) auto
    with True show ?thesis by simp
  next
    case False
    with Cons.prems have b: "b \<in> set ps" and d: "distinct (map f ps)" and ne: "f p \<noteq> f b"
      by auto
    from Cons.IH[OF d b] ne show ?thesis by simp
  qed
qed

lemma pick_best_in:
  "pick_best cc_totals k tot amount cands acc = (Some p, d) \<Longrightarrow> fst acc = Some p \<or> p \<in> set cands"
proof (induction cands arbitrary: acc)
  case Nil
  then show ?case by simp
next
  case (Cons c cands)
  obtain bp bd where acc: "acc = (bp, bd)" by (cases acc) auto
  show ?case
  proof (cases "cc_total_for cc_totals (p_id c) k")
    case None
    with Cons.prems acc have "pick_best cc_totals k tot amount cands (bp, bd) = (Some p, d)" by simp
    from Cons.IH[OF this] acc show ?thesis by auto
  next
    case (Some cc)
    let ?nd = "\<bar>(total_of tot (p_id c) + amount) - cc\<bar>"
    show ?thesis
    proof (cases "case bd of None \<Rightarrow> True | Some b \<Rightarrow> ?nd < b")
      case True
      with Cons.prems acc Some
      have "pick_best cc_totals k tot amount cands (Some c, Some ?nd) = (Some p, d)"
        by (simp add: Let_def)
      from Cons.IH[OF this] show ?thesis by auto
    next
      case False
      with Cons.prems acc Some
      have "pick_best cc_totals k tot amount cands (bp, bd) = (Some p, d)"
        by (simp add: Let_def)
      from Cons.IH[OF this] acc show ?thesis by auto
    qed
  qed
qed

lemma choose_pairing_in:
  "choose_pairing ps cc_totals k tot rp = Some p \<Longrightarrow> p \<in> set ps"
proof -
  assume h: "choose_pairing ps cc_totals k tot rp = Some p"
  define dc where "dc = filter (\<lambda>p. repayment_name_match_strength p (rp_name rp) = 2) ps"
  define vc where "vc = filter (\<lambda>p. repayment_name_match_strength p (rp_name rp) = 1) ps"
  define cands where "cands = (if dc \<noteq> [] then dc else if vc \<noteq> [] then vc else ps)"
  have sub: "set cands \<subseteq> set ps" by (auto simp: cands_def dc_def vc_def)
  obtain bp bd where pb: "pick_best cc_totals k tot \<bar>rp_price rp\<bar> cands (None, None) = (bp, bd)"
    by (cases "pick_best cc_totals k tot \<bar>rp_price rp\<bar> cands (None, None)") auto
  from h pb have "p \<in> set cands"
    unfolding choose_pairing_def Let_def dc_def[symmetric] vc_def[symmetric] cands_def[symmetric]
    using pick_best_in[of cc_totals k tot "\<bar>rp_price rp\<bar>" cands "(None, None)" p bd]
    by (auto split: option.splits if_splits list.splits)
  with sub show ?thesis by blast
qed

lemma abs_total_append: "abs_total (xs @ ys) = abs_total xs + abs_total ys"
  by (simp add: abs_total_def)

lemma alloc_step_inv:
  assumes d: "distinct (map p_id ps)" and inv: "alloc_inv ps seen a"
  shows "alloc_inv ps (seen @ [rp]) (allocate_step ps cc_totals k a rp)"
proof (cases "choose_pairing ps cc_totals k (assigned_total_by_id a) rp")
  case None
  with inv show ?thesis by (simp add: allocate_step_def alloc_inv_def)
next
  case (Some bp)
  have bp: "bp \<in> set ps" using choose_pairing_in[OF Some] .
  have m: "mset (concat (map (\<lambda>p. if p_id p = p_id bp then txns_of (assigned_txns_by_id a) (p_id p) @ [rp]
                                   else txns_of (assigned_txns_by_id a) (p_id p)) ps))
           = add_mset rp (mset (concat (map (\<lambda>p. txns_of (assigned_txns_by_id a) (p_id p)) ps)))"
    using mset_concat_bump[OF d bp, of "\<lambda>p. txns_of (assigned_txns_by_id a) (p_id p)" rp] .
  have e: "(\<lambda>p. if p_id p = p_id bp then txns_of (assigned_txns_by_id a) (p_id bp) @ [rp]
                else txns_of (assigned_txns_by_id a) (p_id p))
         = (\<lambda>p. if p_id p = p_id bp then txns_of (assigned_txns_by_id a) (p_id p) @ [rp]
                else txns_of (assigned_txns_by_id a) (p_id p))"
    by auto
  from inv Some m show ?thesis
    by (simp add: allocate_step_def alloc_inv_def total_of_dict_set txns_of_dict_set
        abs_total_append abs_total_def e)
qed

lemma alloc_foldl_inv:
  "distinct (map p_id ps) \<Longrightarrow> alloc_inv ps seen a \<Longrightarrow>
   alloc_inv ps (seen @ rps) (foldl (allocate_step ps cc_totals k) a rps)"
proof (induction rps arbitrary: seen a)
  case Nil
  then show ?case by simp
next
  case (Cons rp rps)
  from Cons.IH[OF Cons.prems(1) alloc_step_inv[OF Cons.prems(1) Cons.prems(2)], of rp cc_totals k]
  show ?case by simp
qed

lemma abs_total_mset: "mset xs = mset ys \<Longrightarrow> abs_total xs = abs_total ys"
proof -
  assume "mset xs = mset ys"
  then have "mset (map (\<lambda>rp. \<bar>rp_price rp\<bar>) xs) = mset (map (\<lambda>rp. \<bar>rp_price rp\<bar>) ys)"
    by (metis mset_map)
  then show ?thesis unfolding abs_total_def by (metis sum_mset_sum_list)
qed

lemma abs_total_concat:
  "abs_total (concat xss) = sum_list (map abs_total xss)"
  by (induction xss) (simp_all add: abs_total_append, simp add: abs_total_def)

lemma subtract_calendar_months_error:
  "subtract_calendar_months anchor months = Inl e \<Longrightarrow> e = DateOutOfRange"
  by (auto simp: subtract_calendar_months_def Let_def split: prod.splits if_splits)

subsection \<open>The discoverer\<close>

lemma filter_neq_conj:
  "filter (\<lambda>y. y \<noteq> p) (filter (\<lambda>q. q \<noteq> [] \<and> q \<notin> set seen) ps)
     = filter (\<lambda>q. q \<noteq> [] \<and> q \<notin> set (p # seen)) ps"
  by (induction ps) auto

lemma unique_patterns_dedup:
  "unique_patterns seen ps = dedup_first (filter (\<lambda>p. p \<noteq> [] \<and> p \<notin> set seen) ps)"
proof (induction ps arbitrary: seen)
  case Nil
  then show ?case by simp
next
  case (Cons p ps)
  show ?case
  proof (cases "p = [] \<or> p \<in> set seen")
    case True
    then show ?thesis using Cons.IH[of seen] by auto
  next
    case False
    then have "unique_patterns seen (p # ps) = p # unique_patterns (p # seen) ps" by simp
    also have "\<dots> = p # dedup_first (filter (\<lambda>q. q \<noteq> [] \<and> q \<notin> set (p # seen)) ps)"
      by (simp only: Cons.IH[of "p # seen"])
    also have "\<dots> = p # dedup_first (filter (\<lambda>y. y \<noteq> p) (filter (\<lambda>q. q \<noteq> [] \<and> q \<notin> set seen) ps))"
      by (simp only: filter_neq_conj)
    also have "\<dots> = dedup_first (p # filter (\<lambda>q. q \<noteq> [] \<and> q \<notin> set seen) ps)"
      by (simp only: dedup_first.simps)
    also have "\<dots> = dedup_first (filter (\<lambda>q. q \<noteq> [] \<and> q \<notin> set seen) (p # ps))"
      using False by simp
    finally show ?thesis .
  qed
qed

lemma dedup_first_filter_dup:
  "dedup_first (xs @ [a, a]) = dedup_first (xs @ [a])"
  by (induction xs rule: dedup_first.induct) auto

lemma get_account_last4_nonempty: "get_account_last4 acct = Some l \<Longrightarrow> l \<noteq> []"
  by (auto simp: get_account_last4_def last_n_def Let_def split: option.splits if_splits)

lemma build_match_patterns_spec:
  "build_match_patterns ccv acct = dedup_first (filter (\<lambda>p. p \<noteq> []) (pattern_sources ccv acct))"
proof (cases acct)
  case None
  then show ?thesis
    by (simp add: build_match_patterns_def pattern_sources_def unique_patterns_dedup get_account_last4_def)
next
  case (Some a)
  show ?thesis
  proof (cases "a = []")
    case True
    with Some show ?thesis
      by (simp add: build_match_patterns_def pattern_sources_def unique_patterns_dedup get_account_last4_def)
  next
    case False
    show ?thesis
    proof (cases "get_account_last4 (Some a)")
      case None
      with Some False show ?thesis
        by (simp add: build_match_patterns_def pattern_sources_def unique_patterns_dedup)
    next
      case (Some l)
      note l = this
      have ln: "l \<noteq> []" using get_account_last4_nonempty[OF l] .
      show ?thesis
      proof (cases "l = a")
        case True
        with \<open>acct = Some a\<close> False l ln
        have "build_match_patterns ccv acct = dedup_first (filter (\<lambda>p. p \<noteq> []) (keywords_of ccv) @ [a])"
          by (simp add: build_match_patterns_def unique_patterns_dedup)
        also have "\<dots> = dedup_first (filter (\<lambda>p. p \<noteq> []) (keywords_of ccv) @ [a, a])"
          by (simp add: dedup_first_filter_dup)
        finally show ?thesis
          using \<open>acct = Some a\<close> False l True by (simp add: pattern_sources_def)
      next
        case ne: False
        with \<open>acct = Some a\<close> False l ln show ?thesis
          by (simp add: build_match_patterns_def pattern_sources_def unique_patterns_dedup)
      qed
    qed
  qed
qed

lemma tuple_less_asym: "tuple_less a b \<Longrightarrow> \<not> tuple_less b a"
  by (cases a; cases b) auto

lemma tuple_less_negtrans: "\<not> tuple_less a b \<Longrightarrow> \<not> tuple_less b c \<Longrightarrow> \<not> tuple_less a c"
  by (cases a; cases b; cases c) auto

lemma sorted_insert_rank:
  "sorted_wrt (\<lambda>g h. \<not> tuple_less (rank_key g) (rank_key h)) ys \<Longrightarrow>
   sorted_wrt (\<lambda>g h. \<not> tuple_less (rank_key g) (rank_key h))
     (insert_by (\<lambda>y x. tuple_less (rank_key x) (rank_key y)) x ys)"
proof (induction ys)
  case Nil
  then show ?case by simp
next
  case (Cons y ys)
  show ?case
  proof (cases "tuple_less (rank_key x) (rank_key y)")
    case True
    with Cons show ?thesis
      by (auto simp: set_insert_by dest: tuple_less_asym)
  next
    case False
    with Cons.prems show ?thesis
      by (auto dest: tuple_less_negtrans)
  qed
qed

lemma sorted_rank_candidates:
  "sorted_wrt (\<lambda>g h. \<not> tuple_less (rank_key g) (rank_key h)) (rank_candidates groups)"
proof -
  have "sorted_wrt (\<lambda>g h. \<not> tuple_less (rank_key g) (rank_key h))
          (sort_by (\<lambda>y x. tuple_less (rank_key x) (rank_key y)) gs)" for gs
    by (induction gs) (simp_all add: sort_by_def sorted_insert_rank)
  then show ?thesis by (simp add: rank_candidates_def)
qed

lemma mset_rank_candidates:
  "mset (rank_candidates groups)
     = mset (filter (\<lambda>g. matchingLast4Count g > 0 \<or> matchingVendorCount g > 0) (map snd groups))"
  by (simp add: rank_candidates_def mset_sort_by)

subsection \<open>The matcher\<close>


lemma sum_dict_set_total:
  "sum_list (map snd (dict_set k (total_of d k + x) d)) = sum_list (map snd d) + x"
  by (induction d) (auto simp: total_of_def dict_get_def)

lemma mset_dict_set_txns:
  "mset (concat (map snd (dict_set k (txns_of d k @ [r]) d))) = add_mset r (mset (concat (map snd d)))"
  by (induction d) (auto simp: txns_of_def dict_get_def)

lemma dict_set_all: "\<forall>kv\<in>set d. snd kv = v \<Longrightarrow> \<forall>kv\<in>set (dict_set k v d). snd kv = v"
  by (induction d) (fastforce split: if_splits)+

lemma dict_fold_all:
  "\<forall>kv\<in>set d0. snd kv = v \<Longrightarrow> \<forall>kv\<in>set (foldl (\<lambda>d p. dict_set (p_id p) v d) d0 ps). snd kv = v"
proof (induction ps arbitrary: d0)
  case Nil
  then show ?case by simp
next
  case (Cons p ps)
  from Cons.IH[OF dict_set_all[OF Cons.prems, of "p_id p"]] show ?case by simp
qed

lemma dict_init_all: "\<forall>kv\<in>set (dict_init ps v). snd kv = v"
  unfolding dict_init_def by (rule dict_fold_all) simp

lemma sum_all_zero: "\<forall>kv\<in>set d. snd kv = (0::rat) \<Longrightarrow> sum_list (map snd d) = 0"
  by (induction d) auto

lemma concat_all_empty: "\<forall>kv\<in>set d. snd kv = [] \<Longrightarrow> concat (map snd d) = []"
  by (induction d) auto

lemma sum_dict_init: "sum_list (map snd (dict_init ps (0::rat))) = 0"
  by (rule sum_all_zero) (rule dict_init_all)

lemma concat_dict_init: "concat (map snd (dict_init ps ([]::repayment list))) = []"
  by (rule concat_all_empty) (rule dict_init_all)

lemma alloc_step_dict:
  assumes "sum_list (map snd (assigned_total_by_id a)) + abs_total (unassigned a) = abs_total seen"
    and "mset (concat (map snd (assigned_txns_by_id a))) + mset (unassigned a) = mset seen"
  shows "sum_list (map snd (assigned_total_by_id (allocate_step ps cc_totals k a rp)))
           + abs_total (unassigned (allocate_step ps cc_totals k a rp)) = abs_total (seen @ [rp])
       \<and> mset (concat (map snd (assigned_txns_by_id (allocate_step ps cc_totals k a rp))))
           + mset (unassigned (allocate_step ps cc_totals k a rp)) = mset (seen @ [rp])"
proof (cases "choose_pairing ps cc_totals k (assigned_total_by_id a) rp")
  case None
  with assms show ?thesis by (simp add: allocate_step_def abs_total_append abs_total_def)
next
  case (Some bp)
  with assms show ?thesis
    by (simp add: allocate_step_def abs_total_append sum_dict_set_total mset_dict_set_txns abs_total_def)
qed

lemma alloc_foldl_dict:
  "sum_list (map snd (assigned_total_by_id a)) + abs_total (unassigned a) = abs_total seen \<Longrightarrow>
   mset (concat (map snd (assigned_txns_by_id a))) + mset (unassigned a) = mset seen \<Longrightarrow>
   sum_list (map snd (assigned_total_by_id (foldl (allocate_step ps cc_totals k) a rps)))
       + abs_total (unassigned (foldl (allocate_step ps cc_totals k) a rps)) = abs_total (seen @ rps)
   \<and> mset (concat (map snd (assigned_txns_by_id (foldl (allocate_step ps cc_totals k) a rps))))
       + mset (unassigned (foldl (allocate_step ps cc_totals k) a rps)) = mset (seen @ rps)"
proof (induction rps arbitrary: seen a)
  case Nil
  then show ?case by simp
next
  case (Cons rp rps)
  from alloc_step_dict[OF Cons.prems, of ps cc_totals k rp]
  have s: "sum_list (map snd (assigned_total_by_id (allocate_step ps cc_totals k a rp)))
           + abs_total (unassigned (allocate_step ps cc_totals k a rp)) = abs_total (seen @ [rp])"
    and m: "mset (concat (map snd (assigned_txns_by_id (allocate_step ps cc_totals k a rp))))
           + mset (unassigned (allocate_step ps cc_totals k a rp)) = mset (seen @ [rp])"
    by blast+
  from Cons.IH[OF s m] show ?case by simp
qed

lemma allocation_dict_conserves:
  assumes a: "a = allocate_bucket pairings cc_totals date_key rps"
  shows "mset (concat (map snd (assigned_txns_by_id a))) + mset (unassigned a) = mset rps
       \<and> sum_list (map snd (assigned_total_by_id a)) = abs_total rps - abs_total (unassigned a)"
proof -
  let ?a0 = "\<lparr>assigned_total_by_id = dict_init pairings 0, assigned_txns_by_id = dict_init pairings [],
        unassigned = []\<rparr>"
  let ?srt = "sort_by (\<lambda>y x. \<bar>rp_price x\<bar> < \<bar>rp_price y\<bar>) rps"
  have s0: "sum_list (map snd (assigned_total_by_id ?a0)) + abs_total (unassigned ?a0) = abs_total []"
    by (simp add: sum_dict_init abs_total_def)
  have m0: "mset (concat (map snd (assigned_txns_by_id ?a0))) + mset (unassigned ?a0) = mset []"
    by (simp add: concat_dict_init)
  from alloc_foldl_dict[OF s0 m0, of pairings cc_totals date_key ?srt]
  have "sum_list (map snd (assigned_total_by_id a)) + abs_total (unassigned a) = abs_total ?srt"
    and m: "mset (concat (map snd (assigned_txns_by_id a))) + mset (unassigned a) = mset ?srt"
    by (simp_all add: a allocate_bucket_def)
  moreover have "abs_total ?srt = abs_total rps"
    by (rule abs_total_mset) (simp add: mset_sort_by)
  ultimately show ?thesis by (simp add: mset_sort_by)
qed

lemma allocation_pairings_conserve:
  assumes d: "distinct (map p_id pairings)"
    and a: "a = allocate_bucket pairings cc_totals date_key rps"
  shows "mset (concat (map (\<lambda>p. txns_of (assigned_txns_by_id a) (p_id p)) pairings))
           + mset (unassigned a) = mset rps
       \<and> (\<forall>p\<in>set pairings. total_of (assigned_total_by_id a) (p_id p)
                               = abs_total (txns_of (assigned_txns_by_id a) (p_id p)))
       \<and> sum_list (map (\<lambda>p. total_of (assigned_total_by_id a) (p_id p)) pairings)
           = abs_total rps - abs_total (unassigned a)"
proof -
  let ?a0 = "\<lparr>assigned_total_by_id = dict_init pairings 0, assigned_txns_by_id = dict_init pairings [],
        unassigned = []\<rparr>"
  let ?srt = "sort_by (\<lambda>y x. \<bar>rp_price x\<bar> < \<bar>rp_price y\<bar>) rps"
  have i0: "alloc_inv pairings [] ?a0"
    by (simp add: alloc_inv_def total_of_dict_init txns_of_dict_init abs_total_def)
  from alloc_foldl_inv[OF d i0, of ?srt cc_totals date_key]
  have inv: "alloc_inv pairings ?srt a" by (simp add: a allocate_bucket_def)
  then have part: "mset (concat (map (\<lambda>p. txns_of (assigned_txns_by_id a) (p_id p)) pairings))
           + mset (unassigned a) = mset rps"
    by (simp add: alloc_inv_def mset_sort_by)
  from inv have tot: "\<forall>k. total_of (assigned_total_by_id a) k = abs_total (txns_of (assigned_txns_by_id a) k)"
    by (simp add: alloc_inv_def)
  have "abs_total (concat (map (\<lambda>p. txns_of (assigned_txns_by_id a) (p_id p)) pairings) @ unassigned a)
          = abs_total rps"
    by (rule abs_total_mset) (simp add: part)
  then have "sum_list (map (\<lambda>p. abs_total (txns_of (assigned_txns_by_id a) (p_id p))) pairings)
               + abs_total (unassigned a) = abs_total rps"
    by (simp add: abs_total_append abs_total_concat comp_def)
  with tot part show ?thesis by simp
qed

subsection \<open>The example ledgers evaluated\<close>

text \<open>The classifier on the five cycles, seen from 20 January 2026.\<close>

lemma cycle_example:
  "calculate_discrepancy_app cycle_db (2026, 1, 20) (Some 1) ''discount'' (Some ''0162490242'')
     ''visaCal'' (Some ''1456'') 6 500 = Inr (Discrepancy cycle_summary)"
  by code_simp

lemma alloc_example:
  "allocated_cycle (2026, 1, 20) ex_cc_totals ex_earliest ''2025-10-09'' ex_allocation ex_pairing
     = Some fee_cycle"
  by code_simp


lemma period_example:
  "match_repayment_to_expenses period_db period_repayment [] 90
     = Inr (period_matches, PeriodStats period_result_stats)"
  by code_simp

lemma shared_allocation_example:
  "assigned_total_by_id shared_allocation = [(1, 3500), (2, 1200)]
   \<and> map rp_identifier (unassigned shared_allocation) = [''s1'']"
  by code_simp

lemma discover_example:
  "find_best_bank_account_app discover_db ''visaCal'' (Some ''1456'') None None 500
     = Inr (Found discover_found)"
  by code_simp


subsection \<open>The greedy accumulation of the matcher\<close>

lemma sum_amounts_append: "sum_amounts (xs @ ys) = sum_amounts xs + sum_amounts ys"
  by (simp add: sum_amounts_def)

lemma accumulate_skip:
  "\<not> rs + \<bar>t_price e\<bar> \<le> \<bar>t_price r\<bar> + tolerance \<Longrightarrow>
   accumulate r c m (e # es) (ms, rs) = accumulate r c m es (ms, rs)"
  by (simp only: accumulate.simps Let_def if_False)

lemma accumulate_stop:
  "rs + \<bar>t_price e\<bar> \<le> \<bar>t_price r\<bar> + tolerance \<Longrightarrow>
   \<bar>rs + \<bar>t_price e\<bar> - \<bar>t_price r\<bar>\<bar> \<le> tolerance \<Longrightarrow>
   accumulate r c m (e # es) (ms, rs) = (ms @ [make_match r c m e], rs + \<bar>t_price e\<bar>)"
  by (simp only: accumulate.simps Let_def if_True)

lemma accumulate_go:
  "rs + \<bar>t_price e\<bar> \<le> \<bar>t_price r\<bar> + tolerance \<Longrightarrow>
   \<not> \<bar>rs + \<bar>t_price e\<bar> - \<bar>t_price r\<bar>\<bar> \<le> tolerance \<Longrightarrow>
   accumulate r c m (e # es) (ms, rs) =
     accumulate r c m es (ms @ [make_match r c m e], rs + \<bar>t_price e\<bar>)"
  by (simp only: accumulate.simps Let_def if_True if_False)

lemma accumulate_inv:
  "rs = sum_amounts ms \<Longrightarrow> rs \<le> \<bar>t_price r\<bar> + tolerance \<Longrightarrow> amounts_nonneg ms \<Longrightarrow>
   accumulate r c m es (ms, rs) = (ms', rs') \<Longrightarrow>
   rs' = sum_amounts ms' \<and> rs' \<le> \<bar>t_price r\<bar> + tolerance \<and> amounts_nonneg ms'"
proof (induction es arbitrary: ms rs)
  case Nil
  then show ?case by auto
next
  case (Cons e es)
  show ?case
  proof (cases "rs + \<bar>t_price e\<bar> \<le> \<bar>t_price r\<bar> + tolerance")
    case False
    with Cons.prems(4) accumulate_skip[OF False, of c m es ms]
    have "accumulate r c m es (ms, rs) = (ms', rs')" by simp
    with Cons.IH Cons.prems show ?thesis by blast
  next
    case fits: True
    let ?ms = "ms @ [make_match r c m e]"
    let ?rs = "rs + \<bar>t_price e\<bar>"
    have a: "?rs = sum_amounts ?ms"
      using Cons.prems(1) by (simp add: sum_amounts_def make_match_def)
    have b: "amounts_nonneg ?ms"
      using Cons.prems(3) by (simp add: amounts_nonneg_def make_match_def)
    show ?thesis
    proof (cases "\<bar>?rs - \<bar>t_price r\<bar>\<bar> \<le> tolerance")
      case True
      with Cons.prems(4) accumulate_stop[OF fits True, of c m es ms]
      have "(?ms, ?rs) = (ms', rs')" by simp
      with a b fits show ?thesis by auto
    next
      case False
      with Cons.prems(4) accumulate_go[OF fits False, of c m es ms]
      have "accumulate r c m es (?ms, ?rs) = (ms', rs')" by simp
      from Cons.IH[OF a fits b this] show ?thesis .
    qed
  qed
qed

lemma sum_amounts_nonneg: "amounts_nonneg ms \<Longrightarrow> 0 \<le> sum_amounts ms"
  by (induction ms) (auto simp: amounts_nonneg_def sum_amounts_def)

lemma sum_take_le: "amounts_nonneg ms \<Longrightarrow> sum_amounts (take n ms) \<le> sum_amounts ms"
proof (induction ms arbitrary: n)
  case Nil then show ?case by simp
next
  case (Cons a ms)
  show ?case
  proof (cases n)
    case 0
    with sum_amounts_nonneg[OF Cons.prems] show ?thesis by (simp add: sum_amounts_def)
  next
    case (Suc k)
    from Cons.prems have "amounts_nonneg ms" by (simp add: amounts_nonneg_def)
    from Cons.IH[OF this, of k] Suc show ?thesis by (simp add: sum_amounts_def)
  qed
qed

lemma match_period_bounded:
  assumes "match_period conn r c v rd ps pe already lookback = (matches, PeriodStats st)"
  shows "sum_amounts matches \<le> \<bar>t_price r\<bar> + tolerance \<and> amounts_nonneg matches
         \<and> matched_sum st = sum_amounts matches
         \<and> ps_difference st = \<bar>t_price r\<bar> - sum_amounts matches"
proof -
  let ?es = "filter_already_matched (period_expenses conn v c ps pe) already"
  obtain ms1 rs1 where acc1: "accumulate r c auto_chronological ?es ([], 0) = (ms1, rs1)"
    by (cases "accumulate r c auto_chronological ?es ([], 0)") auto
  have inv1: "rs1 = sum_amounts ms1 \<and> rs1 \<le> \<bar>t_price r\<bar> + tolerance \<and> amounts_nonneg ms1"
    by (rule accumulate_inv[OF _ _ _ acc1]) (simp_all add: sum_amounts_def tolerance_def amounts_nonneg_def)
  define carry where "carry = (if \<bar>t_price r\<bar> - sum_amounts ms1 > tolerance
       then filter_already_matched
              (carryover_expenses conn v c (later_date (minus_days 90 ps) (minus_days lookback rd)) ps)
              already
       else [])"
  obtain ms2 rs2 where acc2: "accumulate r c carryover carry (ms1, rs1) = (ms2, rs2)"
    by (cases "accumulate r c carryover carry (ms1, rs1)") auto
  have inv2: "rs2 = sum_amounts ms2 \<and> rs2 \<le> \<bar>t_price r\<bar> + tolerance \<and> amounts_nonneg ms2"
    using accumulate_inv[OF _ _ _ acc2] inv1 by blast
  from assms acc1 acc2 have "matches = ms2 \<and> matched_sum st = sum_amounts ms2
      \<and> ps_difference st = \<bar>t_price r\<bar> - sum_amounts ms2"
    unfolding match_period_def carry_def
    by (auto simp: Let_def split: if_splits)
  with inv2 show ?thesis by auto
qed

text \<open>C10: whenever the matcher returns a billing-period result for a repayment, the running
  sum of the matched expense amounts stays at or below the repayment amount plus the tolerance
  of 2 at every point of the greedy accumulation (every prefix of the match list, which only
  grows at its end), through the billing period and on through the carryover; so the matched
  total over-matches the repayment by at most 2.\<close>

theorem greedy_running_sum_bounded:
  assumes "match_repayment_to_expenses conn r already lookback = Inr (matches, PeriodStats st)"
  shows "(\<forall>n. sum_amounts (take n matches) \<le> \<bar>t_price r\<bar> + tolerance)
         \<and> matched_sum st = sum_amounts matches
         \<and> matched_sum st \<le> \<bar>t_price r\<bar> + 2
         \<and> - 2 \<le> ps_difference st"
proof -
  from assms obtain c v rd ps pe where
    "match_period conn r c v rd ps pe already lookback = (matches, PeriodStats st)"
    unfolding match_repayment_to_expenses_def
    by (auto simp: Let_def split: option.splits prod.splits if_splits sum.splits)
  from match_period_bounded[OF this]
  have b: "sum_amounts matches \<le> \<bar>t_price r\<bar> + tolerance" and nn: "amounts_nonneg matches"
    and ms: "matched_sum st = sum_amounts matches"
    and df: "ps_difference st = \<bar>t_price r\<bar> - sum_amounts matches"
    by auto
  have "\<forall>n. sum_amounts (take n matches) \<le> \<bar>t_price r\<bar> + tolerance"
    using sum_take_le[OF nn] b by (meson order_trans)
  with b ms df show ?thesis by (simp add: tolerance_def)
qed

theorem greedy_running_sum_bounded_witness:
  "match_repayment_to_expenses period_db period_repayment [] 90
     = Inr (period_matches, PeriodStats period_result_stats)
   \<and> (\<forall>n. sum_amounts (take n period_matches) \<le> \<bar>t_price period_repayment\<bar> + tolerance)
   \<and> matched_sum period_result_stats = sum_amounts period_matches
   \<and> matched_sum period_result_stats \<le> \<bar>t_price period_repayment\<bar> + 2
   \<and> - 2 \<le> ps_difference period_result_stats"
  using greedy_running_sum_bounded [OF period_example] period_example by blast

subsection \<open>Statuses of a cycle\<close>




subsection \<open>Cycles without a card total\<close>




subsection \<open>The aggregate of a result\<close>

text \<open>C4, amended. For every result of the classifier that carries cycles: the total bank
  repayments are the sum of \<open>bankTotal\<close>, and the total card expenses the sum of \<open>ccTotal\<close>,
  over the comparable cycles, those that have a card total and are not flagged
  \<open>incomplete_history\<close>; the difference is the first total minus the second; the total card
  expenses are not negative; the percentage is the difference divided by the total card
  expenses, times 100, rounded to two decimals, and 0 when the total card expenses are 0;
  and \<open>exists\<close> is true if and only if some cycle has an actionable status and the pairing is
  not acknowledged.\<close>

theorem aggregate_of_result:
  assumes "calculate_discrepancy_app conn today pid bv ba cv ca months lmt = Inr (Discrepancy d)"
  shows "totalBankRepayments d = sum_list (map bankTotal (comparable (cycles d)))
       \<and> totalCCExpenses d
           = sum_list (map (\<lambda>c. case ccTotal c of None \<Rightarrow> 0 | Some v \<Rightarrow> v) (comparable (cycles d)))
       \<and> d_difference d = totalBankRepayments d - totalCCExpenses d
       \<and> 0 \<le> totalCCExpenses d
       \<and> differencePercentage d =
           (if totalCCExpenses d = 0 then 0
            else round2 (d_difference d / totalCCExpenses d * 100))
       \<and> (d_exists d \<longleftrightarrow> (\<exists>c\<in>set (cycles d). actionable (status c)) \<and> \<not> d_acknowledged d)
       \<and> d_acknowledged d = lookup_acknowledged conn pid"
proof -
  have am: "cents (bankTotal c) \<and> (\<forall>v. ccTotal c = Some v \<longrightarrow> cents v \<and> 0 \<le> v)"
    if "c \<in> set (cycles d)" for c
    using app_cycle_amounts[OF assms, of c] that by simp
  from summarize_totals[OF am app_is_summary[OF assms]] show ?thesis by simp
qed

theorem aggregate_of_result_witness:
  "calculate_discrepancy_app cycle_db (2026, 1, 20) (Some 1) ''discount'' (Some ''0162490242'')
     ''visaCal'' (Some ''1456'') 6 500 = Inr (Discrepancy cycle_summary)
   \<and> totalBankRepayments cycle_summary = sum_list (map bankTotal (comparable (cycles cycle_summary)))
   \<and> totalBankRepayments cycle_summary = 11020
   \<and> d_difference cycle_summary = totalBankRepayments cycle_summary - totalCCExpenses cycle_summary
   \<and> differencePercentage cycle_summary = 495 / 100
   \<and> d_exists cycle_summary"
  using aggregate_of_result [OF cycle_example] cycle_example
  by (simp add: cycle_summary_def)

text \<open>The claim as stated fails on the five cycles: the cycle without a card total is not
  flagged \<open>incomplete_history\<close>, and its 1000 are not part of the total bank repayments.\<close>

theorem aggregate_counterexample:
  "calculate_discrepancy_app cycle_db (2026, 1, 20) (Some 1) ''discount'' (Some ''0162490242'')
     ''visaCal'' (Some ''1456'') 6 500 = Inr (Discrepancy cycle_summary)
   \<and> totalBankRepayments cycle_summary = 11020
   \<and> claimed_total_bank (cycles cycle_summary) = 12020"
  using cycle_example
  by (simp add: cycle_summary_def claimed_total_bank_def cyc_def recent_cycle_def fee_cycle_def)

subsection \<open>The grace-period pass\<close>

text \<open>C5. In the grace-period pass of the classifier (\<open>grace_relabel\<close>, applied to every cycle
  of a result) and of the allocator (\<open>grace_status\<close>, applied to the status of every cycle it
  builds): a cycle whose status is not actionable is left as it is; a cycle with an
  actionable status whose date lies within 14 days of the card's earliest billing day, or at
  most 14 days before today and not after it, is relabeled \<open>incomplete_history\<close>, whatever
  its totals and with nothing else changed. Exactly, a status is \<open>incomplete_history\<close> after
  the pass if and only if it was so before, or it was actionable and the date is at most 14
  days after the earliest billing day or within the 14 days up to today.\<close>

theorem grace_period_pass:
  "(\<not> actionable (status c) \<longrightarrow> grace_relabel today earliest c = c)
   \<and> (\<not> actionable st \<longrightarrow> grace_status today earliest k st = st)
   \<and> (actionable (status c) \<and> fromisoformat (cycleDate c) = Some cd
        \<and> ((\<exists>e. earliest = Some e \<and> \<bar>toordinal cd - toordinal e\<bar> \<le> 14)
            \<or> (0 \<le> toordinal today - toordinal cd \<and> toordinal today - toordinal cd \<le> 14))
       \<longrightarrow> grace_relabel today earliest c = c\<lparr>status := incomplete_history\<rparr>)
   \<and> (actionable st \<and> fromisoformat k = Some cd
        \<and> ((\<exists>e. earliest = Some e \<and> \<bar>toordinal cd - toordinal e\<bar> \<le> 14)
            \<or> (0 \<le> toordinal today - toordinal cd \<and> toordinal today - toordinal cd \<le> 14))
       \<longrightarrow> grace_status today earliest k st = incomplete_history)
   \<and> (status (grace_relabel today earliest c) = grace_status today earliest (cycleDate c) (status c))
   \<and> (grace_status today earliest k st = incomplete_history \<longleftrightarrow>
        st = incomplete_history
        \<or> (actionable st \<and> (\<exists>cd'. fromisoformat k = Some cd'
              \<and> ((\<exists>e. earliest = Some e \<and> toordinal cd' - toordinal e \<le> 14)
                  \<or> (0 \<le> toordinal today - toordinal cd' \<and> toordinal today - toordinal cd' \<le> 14)))))
   \<and> (calculate_discrepancy_app conn today pid bv ba cv ca months lmt = Inr (Discrepancy d)
       \<longrightarrow> (\<exists>raw. cycles d = map (grace_relabel today
                (get_cc_earliest_cycle_date conn cv ca (get_cc_fees_category_id conn))) raw))
   \<and> (allocated_cycle today cc_totals earliest_by_id date_key a pairing = Some c'
       \<longrightarrow> (\<exists>st0. status c' = grace_status today
                (case dict_get earliest_by_id (p_id pairing) of None \<Rightarrow> None | Some e \<Rightarrow> e)
                date_key st0))"
proof (intro conjI impI)
  show "grace_relabel today earliest c = c" if "\<not> actionable (status c)"
    using that by (simp add: grace_relabel_def)
  show "grace_status today earliest k st = st" if "\<not> actionable st"
    using that by (simp add: grace_status_def)
  show "grace_relabel today earliest c = c\<lparr>status := incomplete_history\<rparr>"
    if "actionable (status c) \<and> fromisoformat (cycleDate c) = Some cd
        \<and> ((\<exists>e. earliest = Some e \<and> \<bar>toordinal cd - toordinal e\<bar> \<le> 14)
            \<or> (0 \<le> toordinal today - toordinal cd \<and> toordinal today - toordinal cd \<le> 14))"
    using that
    by (auto simp: grace_relabel_def EARLY_GRACE_DAYS_def RECENT_GRACE_DAYS_def split: option.splits)
  show "grace_status today earliest k st = incomplete_history"
    if "actionable st \<and> fromisoformat k = Some cd
        \<and> ((\<exists>e. earliest = Some e \<and> \<bar>toordinal cd - toordinal e\<bar> \<le> 14)
            \<or> (0 \<le> toordinal today - toordinal cd \<and> toordinal today - toordinal cd \<le> 14))"
    using that
    by (auto simp: grace_status_def EARLY_GRACE_DAYS_def RECENT_GRACE_DAYS_def split: option.splits)
  show "status (grace_relabel today earliest c) = grace_status today earliest (cycleDate c) (status c)"
    by (rule status_grace_relabel)
  show "grace_status today earliest k st = incomplete_history \<longleftrightarrow>
        st = incomplete_history
        \<or> (actionable st \<and> (\<exists>cd'. fromisoformat k = Some cd'
              \<and> ((\<exists>e. earliest = Some e \<and> toordinal cd' - toordinal e \<le> 14)
                  \<or> (0 \<le> toordinal today - toordinal cd' \<and> toordinal today - toordinal cd' \<le> 14))))"
    by (cases st)
      (auto simp: grace_status_def EARLY_GRACE_DAYS_def RECENT_GRACE_DAYS_def split: option.splits)
  show "\<exists>raw. cycles d = map (grace_relabel today
                (get_cc_earliest_cycle_date conn cv ca (get_cc_fees_category_id conn))) raw"
    if "calculate_discrepancy_app conn today pid bv ba cv ca months lmt = Inr (Discrepancy d)"
    using that unfolding calculate_discrepancy_app_def
    by (auto simp: Let_def summarize_def split: if_splits sum.splits)
  show "\<exists>st0. status c' = grace_status today
                (case dict_get earliest_by_id (p_id pairing) of None \<Rightarrow> None | Some e \<Rightarrow> e)
                date_key st0"
    if "allocated_cycle today cc_totals earliest_by_id date_key a pairing = Some c'"
    using that unfolding allocated_cycle_def
    by (auto simp: Let_def split: if_splits)
qed

theorem grace_period_pass_witness:
  "actionable (status raw_recent_cycle)
   \<and> fromisoformat (cycleDate raw_recent_cycle) = Some (2026, 1, 9)
   \<and> 0 \<le> toordinal (2026, 1, 20) - toordinal (2026, 1, 9)
   \<and> toordinal (2026, 1, 20) - toordinal (2026, 1, 9) \<le> 14
   \<and> grace_relabel (2026, 1, 20) (Some (2025, 6, 1)) raw_recent_cycle = recent_cycle
   \<and> \<not> actionable (status matched_cycle)
   \<and> grace_relabel (2026, 1, 20) (Some (2025, 6, 1)) matched_cycle = matched_cycle
   \<and> calculate_discrepancy_app cycle_db (2026, 1, 20) (Some 1) ''discount'' (Some ''0162490242'')
     ''visaCal'' (Some ''1456'') 6 500 = Inr (Discrepancy cycle_summary)
   \<and> (\<exists>raw. cycles cycle_summary = map (grace_relabel (2026, 1, 20)
          (get_cc_earliest_cycle_date cycle_db ''visaCal'' (Some ''1456'')
           (get_cc_fees_category_id cycle_db))) raw)
   \<and> allocated_cycle (2026, 1, 20) ex_cc_totals ex_earliest ''2025-10-09'' ex_allocation ex_pairing
        = Some fee_cycle
   \<and> (\<exists>st0. status fee_cycle = grace_status (2026, 1, 20)
          (case dict_get ex_earliest (p_id ex_pairing) of None \<Rightarrow> None | Some e \<Rightarrow> e)
          ''2025-10-09'' st0)"
proof -
  have h1: "actionable (status raw_recent_cycle)
      \<and> fromisoformat (cycleDate raw_recent_cycle) = Some (2026, 1, 9)
      \<and> 0 \<le> toordinal (2026, 1, 20) - toordinal (2026, 1, 9)
      \<and> toordinal (2026, 1, 20) - toordinal (2026, 1, 9) \<le> 14"
    by code_simp
  have h2: "\<not> actionable (status matched_cycle)"
    by (simp add: matched_cycle_def cyc_def)
  have h3: "raw_recent_cycle\<lparr>status := incomplete_history\<rparr> = recent_cycle"
    by (simp add: raw_recent_cycle_def recent_cycle_def cyc_def)
  note t1 = grace_period_pass [where c = raw_recent_cycle and today = "(2026, 1, 20)"
      and earliest = "Some (2025, 6, 1)" and cd = "(2026, 1, 9)" and conn = cycle_db
      and pid = "Some 1" and bv = "''discount''" and ba = "Some ''0162490242''"
      and cv = "''visaCal''" and ca = "Some ''1456''" and months = 6 and lmt = 500
      and d = cycle_summary and cc_totals = ex_cc_totals and earliest_by_id = ex_earliest
      and date_key = "''2025-10-09''" and a = ex_allocation and pairing = ex_pairing
      and c' = fee_cycle]
  note t2 = grace_period_pass [where c = matched_cycle and today = "(2026, 1, 20)"
      and earliest = "Some (2025, 6, 1)"]
  from t1 h1 h3 have a: "grace_relabel (2026, 1, 20) (Some (2025, 6, 1)) raw_recent_cycle = recent_cycle"
    by simp
  from t2 h2 have b: "grace_relabel (2026, 1, 20) (Some (2025, 6, 1)) matched_cycle = matched_cycle"
    by blast
  from t1 cycle_example have c: "\<exists>raw. cycles cycle_summary = map (grace_relabel (2026, 1, 20)
          (get_cc_earliest_cycle_date cycle_db ''visaCal'' (Some ''1456'')
           (get_cc_fees_category_id cycle_db))) raw"
    by blast
  from t1 alloc_example have d: "\<exists>st0. status fee_cycle = grace_status (2026, 1, 20)
          (case dict_get ex_earliest (p_id ex_pairing) of None \<Rightarrow> None | Some e \<Rightarrow> e)
          ''2025-10-09'' st0"
    by blast
  from h1 h2 a b c d cycle_example alloc_example show ?thesis by blast
qed

subsection \<open>The bank-group allocator\<close>

text \<open>C6. For the repayments of one date: every repayment is in the list assigned to
  exactly one pairing id or in the list of the unassigned ones (the assigned lists and the
  unassigned list together hold each repayment exactly as often as the bucket does), and the
  totals assigned to the ids add up to the sum of the absolute amounts of all repayments of
  the date minus that of the unassigned ones. For pairings with distinct ids the same holds
  pairing by pairing, and the total assigned to a pairing is the sum of the absolute amounts
  of its list.\<close>

theorem allocation_conserves:
  assumes a: "a = allocate_bucket pairings cc_totals date_key rps"
  shows "mset (concat (map snd (assigned_txns_by_id a))) + mset (unassigned a) = mset rps
       \<and> sum_list (map snd (assigned_total_by_id a)) = abs_total rps - abs_total (unassigned a)
       \<and> (distinct (map p_id pairings) \<longrightarrow>
             mset (concat (map (\<lambda>p. txns_of (assigned_txns_by_id a) (p_id p)) pairings))
               + mset (unassigned a) = mset rps
           \<and> (\<forall>p\<in>set pairings. total_of (assigned_total_by_id a) (p_id p)
                                   = abs_total (txns_of (assigned_txns_by_id a) (p_id p)))
           \<and> sum_list (map (\<lambda>p. total_of (assigned_total_by_id a) (p_id p)) pairings)
               = abs_total rps - abs_total (unassigned a))"
  using allocation_dict_conserves [OF a] allocation_pairings_conserve [OF _ a] by blast

theorem allocation_conserves_witness:
  "distinct (map p_id [ex_pairing, max_pairing])
   \<and> mset (concat (map snd (assigned_txns_by_id shared_allocation)))
       + mset (unassigned shared_allocation) = mset shared_repayments
   \<and> sum_list (map snd (assigned_total_by_id shared_allocation))
       = abs_total shared_repayments - abs_total (unassigned shared_allocation)
   \<and> mset (concat (map (\<lambda>p. txns_of (assigned_txns_by_id shared_allocation) (p_id p))
              [ex_pairing, max_pairing]))
       + mset (unassigned shared_allocation) = mset shared_repayments
   \<and> sum_list (map (\<lambda>p. total_of (assigned_total_by_id shared_allocation) (p_id p))
         [ex_pairing, max_pairing])
       = abs_total shared_repayments - abs_total (unassigned shared_allocation)
   \<and> assigned_total_by_id shared_allocation = [(1, 3500), (2, 1200)]
   \<and> map rp_identifier (unassigned shared_allocation) = [''s1'']"
proof -
  have d: "distinct (map p_id [ex_pairing, max_pairing])"
    by (simp add: ex_pairing_def max_pairing_def)
  from allocation_conserves [OF shared_allocation_def] d shared_allocation_example
  show ?thesis by blast
qed

text \<open>C9. Whenever a later pairing of the input differs from the first one in its bank
  vendor or bank account number, the allocator raises the validation error, whatever the
  ledger, the day and the window are (nothing of them is looked at, and the error takes
  precedence over every other outcome); when all pairings share one bank identity, it does
  not raise it.\<close>

theorem bank_group_validation:
  "(pairings = first # others
      \<and> (\<exists>p\<in>set others. bank_vendor p \<noteq> bank_vendor first
                          \<or> bank_account_number p \<noteq> bank_account_number first)
     \<longrightarrow> (\<forall>conn' today' months' lmt'.
            calculate_discrepancies_app_for_bank_group conn' today' pairings months' lmt'
              = Inl MixedBankGroup))
   \<and> ((\<forall>p\<in>set pairings. \<forall>q\<in>set pairings.
          bank_vendor p = bank_vendor q \<and> bank_account_number p = bank_account_number q)
     \<longrightarrow> calculate_discrepancies_app_for_bank_group conn today pairings months lmt \<noteq> Inl MixedBankGroup)"
proof (intro conjI impI allI)
  fix conn' today' months' lmt'
  assume "pairings = first # others
      \<and> (\<exists>p\<in>set others. bank_vendor p \<noteq> bank_vendor first
                          \<or> bank_account_number p \<noteq> bank_account_number first)"
  then have p: "pairings = first # others" and "list_ex (\<lambda>pairing. \<not> same_bank first pairing) others"
    unfolding list_ex_iff same_bank_def by blast+
  then show "calculate_discrepancies_app_for_bank_group conn' today' pairings months' lmt' = Inl MixedBankGroup"
    unfolding p by (simp add: calculate_discrepancies_app_for_bank_group_def)
next
  assume same: "\<forall>p\<in>set pairings. \<forall>q\<in>set pairings.
          bank_vendor p = bank_vendor q \<and> bank_account_number p = bank_account_number q"
  show "calculate_discrepancies_app_for_bank_group conn today pairings months lmt \<noteq> Inl MixedBankGroup"
  proof (cases pairings)
    case Nil
    then show ?thesis by (simp add: calculate_discrepancies_app_for_bank_group_def)
  next
    case (Cons f os)
    from same have nl: "\<not> list_ex (\<lambda>pairing. \<not> same_bank f pairing) os"
      unfolding Cons list_ex_iff same_bank_def by (metis list.set_intros)
    show ?thesis
    proof (cases "subtract_calendar_months today months")
      case (Inl e)
      from subtract_calendar_months_error[OF Inl] have e: "e = DateOutOfRange" .
      from nl Inl show ?thesis
        unfolding Cons e by (simp add: calculate_discrepancies_app_for_bank_group_def)
    next
      case (Inr sd)
      with nl show ?thesis
        unfolding Cons by (simp add: calculate_discrepancies_app_for_bank_group_def)
    qed
  qed
qed

theorem bank_group_validation_witness:
  "(\<forall>conn' today' months' lmt'.
      calculate_discrepancies_app_for_bank_group conn' today' [ex_pairing, other_bank_pairing]
        months' lmt' = Inl MixedBankGroup)
   \<and> calculate_discrepancies_app_for_bank_group cycle_db (2026, 1, 20) [ex_pairing, max_pairing] 6 2000
        \<noteq> Inl MixedBankGroup"
proof -
  have h1: "[ex_pairing, other_bank_pairing] = ex_pairing # [other_bank_pairing]
      \<and> (\<exists>p\<in>set [other_bank_pairing]. bank_vendor p \<noteq> bank_vendor ex_pairing
                          \<or> bank_account_number p \<noteq> bank_account_number ex_pairing)"
    by (simp add: ex_pairing_def other_bank_pairing_def max_pairing_def)
  have h2: "\<forall>p\<in>set [ex_pairing, max_pairing]. \<forall>q\<in>set [ex_pairing, max_pairing].
          bank_vendor p = bank_vendor q \<and> bank_account_number p = bank_account_number q"
    by (simp add: ex_pairing_def max_pairing_def)
  from bank_group_validation [where pairings = "[ex_pairing, other_bank_pairing]"
         and first = ex_pairing and others = "[other_bank_pairing]"] h1
  have a: "\<forall>conn' today' months' lmt'.
      calculate_discrepancies_app_for_bank_group conn' today' [ex_pairing, other_bank_pairing]
        months' lmt' = Inl MixedBankGroup" by blast
  from bank_group_validation [where pairings = "[ex_pairing, max_pairing]" and conn = cycle_db
         and today = "(2026, 1, 20)" and months = 6 and lmt = 2000] h2
  have b: "calculate_discrepancies_app_for_bank_group cycle_db (2026, 1, 20) [ex_pairing, max_pairing] 6 2000
        \<noteq> Inl MixedBankGroup" by blast
  from a b show ?thesis by blast
qed

subsection \<open>The bank account discoverer\<close>

text \<open>C7. For a call with a card vendor: the candidates are exactly the groups with a
  positive \<open>matchingLast4Count\<close> or \<open>matchingVendorCount\<close> (every group with both at zero is
  discarded), ranked so that no group comes before one with a greater tuple
  \<open>(matchingLast4Count, matchingVendorCount, transaction count)\<close> in the lexicographic order.
  Without rows the result is not found, with the reason that no bank repayment transactions
  were found; with rows and no candidate it is not found, with the reason that no repayment
  references the card; otherwise it is found, with the identity and the counts of the
  top-ranked group, the next two groups at most as runner-ups, and as match patterns the
  vendor keywords, the account number and its last four characters, without empty texts and
  deduplicated in first-seen order.\<close>

theorem discoverer_result:
  assumes v: "ccv \<noteq> []"
  shows "let last4 = get_account_last4 acct;
             rows = select_bank_rows conn bvf baf lmt;
             groups = build_groups last4 ccv rows;
             cands = rank_candidates groups;
             result = find_best_bank_account_app conn ccv acct bvf baf lmt
         in mset cands
              = mset (filter (\<lambda>g. matchingLast4Count g > 0 \<or> matchingVendorCount g > 0)
                        (map snd groups))
            \<and> sorted_wrt (\<lambda>g h. \<not> tuple_less (rank_key g) (rank_key h)) cands
            \<and> (rows = [] \<longrightarrow> result = Inr (NotFound ''No bank repayment transactions found''))
            \<and> (rows \<noteq> [] \<and> cands = [] \<longrightarrow> result = Inr (NotFound (not_referenced_reason last4)))
            \<and> (\<forall>best others. rows \<noteq> [] \<and> cands = best # others \<longrightarrow>
                 (\<exists>f. result = Inr (Found f)
                    \<and> f_bankVendor f = bankVendor best
                    \<and> f_bankAccountNumber f = bankAccountNumber best
                    \<and> f_transactionCount f = length (g_transactions best)
                    \<and> f_matchingLast4Count f = matchingLast4Count best
                    \<and> f_matchingVendorCount f = matchingVendorCount best
                    \<and> f_otherCandidates f = map to_other_candidate (take 2 others)
                    \<and> length (f_otherCandidates f) \<le> 2
                    \<and> f_matchPatterns f
                        = dedup_first (filter (\<lambda>p. p \<noteq> []) (pattern_sources ccv acct))))"
proof -
  define last4 where "last4 = get_account_last4 acct"
  define rows where "rows = select_bank_rows conn bvf baf lmt"
  define groups where "groups = build_groups last4 ccv rows"
  define cands where "cands = rank_candidates groups"
  define result where "result = find_best_bank_account_app conn ccv acct bvf baf lmt"
  have r: "result = (if rows = [] then Inr (NotFound ''No bank repayment transactions found'')
             else case cands of
               [] \<Rightarrow> Inr (NotFound (not_referenced_reason last4))
             | best # others \<Rightarrow>
                 Inr (Found
                   \<lparr>f_bankVendor = bankVendor best,
                    f_bankAccountNumber = bankAccountNumber best,
                    f_transactionCount = length (g_transactions best),
                    f_matchingLast4Count = matchingLast4Count best,
                    f_matchingVendorCount = matchingVendorCount best,
                    f_matchPatterns = build_match_patterns ccv acct,
                    f_sampleTransactions = sample_transactions last4 ccv (g_transactions best) [],
                    f_otherCandidates = map to_other_candidate (take 2 others)\<rparr>))"
    using v
    unfolding result_def find_best_bank_account_app_def Let_def
      rows_def cands_def groups_def last4_def to_other_candidate_def
    by (simp split: list.splits)
  have 1: "mset cands = mset (filter (\<lambda>g. matchingLast4Count g > 0 \<or> matchingVendorCount g > 0)
                        (map snd groups))"
    unfolding cands_def by (rule mset_rank_candidates)
  have 2: "sorted_wrt (\<lambda>g h. \<not> tuple_less (rank_key g) (rank_key h)) cands"
    unfolding cands_def by (rule sorted_rank_candidates)
  have 3: "rows = [] \<longrightarrow> result = Inr (NotFound ''No bank repayment transactions found'')"
    using r by simp
  have 4: "rows \<noteq> [] \<and> cands = [] \<longrightarrow> result = Inr (NotFound (not_referenced_reason last4))"
    using r by simp
  have 5: "\<forall>best others. rows \<noteq> [] \<and> cands = best # others \<longrightarrow>
                 (\<exists>f. result = Inr (Found f)
                    \<and> f_bankVendor f = bankVendor best
                    \<and> f_bankAccountNumber f = bankAccountNumber best
                    \<and> f_transactionCount f = length (g_transactions best)
                    \<and> f_matchingLast4Count f = matchingLast4Count best
                    \<and> f_matchingVendorCount f = matchingVendorCount best
                    \<and> f_otherCandidates f = map to_other_candidate (take 2 others)
                    \<and> length (f_otherCandidates f) \<le> 2
                    \<and> f_matchPatterns f
                        = dedup_first (filter (\<lambda>p. p \<noteq> []) (pattern_sources ccv acct)))"
    using r by (auto simp: build_match_patterns_spec)
  from 1 2 3 4 5 show ?thesis
    unfolding Let_def last4_def[symmetric] rows_def[symmetric] groups_def[symmetric]
      cands_def[symmetric] result_def[symmetric]
    by blast
qed

theorem discoverer_result_witness:
  "''visaCal'' \<noteq> []
   \<and> find_best_bank_account_app discover_db ''visaCal'' (Some ''1456'') None None 500
       = Inr (Found discover_found)
   \<and> sorted_wrt (\<lambda>g h. \<not> tuple_less (rank_key g) (rank_key h))
       (rank_candidates (build_groups (get_account_last4 (Some ''1456'')) ''visaCal''
          (select_bank_rows discover_db None None 500)))
   \<and> mset (rank_candidates (build_groups (get_account_last4 (Some ''1456'')) ''visaCal''
          (select_bank_rows discover_db None None 500)))
       = mset (filter (\<lambda>g. matchingLast4Count g > 0 \<or> matchingVendorCount g > 0)
           (map snd (build_groups (get_account_last4 (Some ''1456'')) ''visaCal''
              (select_bank_rows discover_db None None 500))))
   \<and> length (f_otherCandidates discover_found) \<le> 2"
proof -
  have h: "''visaCal'' \<noteq> []" by simp
  have l: "length (f_otherCandidates discover_found) \<le> 2" by (simp add: discover_found_def)
  from discoverer_result [OF h, of "Some ''1456''" discover_db None None 500, unfolded Let_def]
    h l discover_example
  show ?thesis by blast
qed

subsection \<open>Repayments outside the monthly cycle\<close>




subsection \<open>Expenses matched twice in one run\<close>

text \<open>C2 does not hold of the code. The immediate match of a sauvage repayment looks at the
  persisted match table only and not at the expenses matched earlier in the run: in a run
  over the two repayments of 1199.80 and 1200 and the single expense of 1199.50, both
  repayments are matched to that expense.\<close>

theorem double_match_example:
  "map match_key (main_matches (main double_db True)) = [(''e1'', ''visaCal''), (''e1'', ''visaCal'')]
   \<and> map repayment_txn_id (main_matches (main double_db True)) = [''r21'', ''r20'']
   \<and> map match_method (main_matches (main double_db True)) = [sauvage_payment, sauvage_payment]"
  by code_simp

end
